theory Spec2Isabelle
  imports Main "HOL-Library.Word"
begin

section \<open>Solidity values, reverts and checked arithmetic\<close>

text \<open>
  The contracts are compiled with Solidity 0.8: every \<open>uint256\<close> is a 256-bit word, and
  \<open>+\<close>, \<open>-\<close>, \<open>*\<close> and \<open>/\<close> revert the whole call (Panic 0x11 on overflow or underflow,
  Panic 0x12 on division by zero) instead of wrapping. A call either returns the new
  contract state (\<open>Inr\<close>) or reverts with an error (\<open>Inl\<close>), in which case the
  transaction leaves every contract as it was.
\<close>

type_synonym uint256 = "256 word"
type_synonym address = "160 word"

datatype error =
    Revert string
  | Panic_overflow
  | Panic_div_zero
  | OwnableUnauthorizedAccount
  | ERC721InvalidReceiver
  | ERC721NonexistentToken
  | ERC721InsufficientApproval
  | ERC721IncorrectOwner

definition uint256_limit :: nat where
  "uint256_limit = 2 ^ 256"

definition checked_add :: "uint256 \<Rightarrow> uint256 \<Rightarrow> error + uint256" where
  "checked_add a b =
     (if unat a + unat b < uint256_limit then Inr (a + b) else Inl Panic_overflow)"

definition checked_sub :: "uint256 \<Rightarrow> uint256 \<Rightarrow> error + uint256" where
  "checked_sub a b = (if b \<le> a then Inr (a - b) else Inl Panic_overflow)"

definition checked_mul :: "uint256 \<Rightarrow> uint256 \<Rightarrow> error + uint256" where
  "checked_mul a b =
     (if unat a * unat b < uint256_limit then Inr (a * b) else Inl Panic_overflow)"

definition checked_div :: "uint256 \<Rightarrow> uint256 \<Rightarrow> error + uint256" where
  "checked_div a b = (if b = 0 then Inl Panic_div_zero else Inr (a div b))"

text \<open>Sequencing of statements that may revert: the first error stops the call.\<close>

fun ebind :: "error + 'a \<Rightarrow> ('a \<Rightarrow> error + 'b) \<Rightarrow> error + 'b" where
  "ebind (Inl e) f = Inl e"
| "ebind (Inr x) f = f x"

definition require :: "bool \<Rightarrow> string \<Rightarrow> error + unit" where
  "require c msg = (if c then Inr () else Inl (Revert msg))"

text \<open>
  What a transaction leaves behind: the new state when the call returns, the old state
  when it reverts.
\<close>

definition commit :: "'s \<Rightarrow> error + 's \<Rightarrow> 's" where
  "commit s r = (case r of Inl e \<Rightarrow> s | Inr s' \<Rightarrow> s')"

datatype event =
    LiquidityDeposited address uint256 uint256
  | LiquidityWithdrawn address uint256 uint256
  | MortgageFunded address uint256
  | MortgageRepayment uint256 uint256
  | InsurancePayout address uint256
  | PropertyListed uint256 uint256
  | PropertyUnlisted uint256
  | Transfer address address uint256
  | MortgageApplied uint256 address uint256 uint256
  | MortgageActivated uint256 address
  | PaymentReceived uint256 address uint256 uint256
  | MortgageCompleted uint256 address
  | MortgageDefaulted uint256 address
  | PropertyForeclosed uint256 address

definition BASIS_POINTS :: uint256 where
  "BASIS_POINTS = 10000"

section \<open>MortgagePool.sol\<close>

text \<open>
  The storage of the pool, with the owner of \<open>Ownable\<close> and the events emitted so far.
  \<open>nonReentrant\<close> is not modelled: calls are executed one at a time, so the guard is
  free at every entry. The result of the low-level \<open>call{value: ...}("")\<close> that pushes
  ETH out is a parameter \<open>call_success\<close> of the functions that make it.
\<close>

record MortgagePool =
  totalLiquidity :: uint256
  totalShares :: uint256
  insuranceReserve :: uint256
  activeMortgages :: uint256
  totalInterestEarned :: uint256
  lpShares :: "address \<Rightarrow> uint256"
  lpDepositTimestamp :: "address \<Rightarrow> uint256"
  authorizedBorrowers :: "address \<Rightarrow> bool"
  poolOwner :: address
  poolEvents :: "event list"

definition INSURANCE_RATE :: uint256 where
  "INSURANCE_RATE = 200"

text \<open>The state after \<open>constructor() Ownable(msg.sender)\<close>.\<close>

definition newMortgagePool :: "address \<Rightarrow> MortgagePool" where
  "newMortgagePool deployer =
     \<lparr>totalLiquidity = 0, totalShares = 0, insuranceReserve = 0, activeMortgages = 0,
      totalInterestEarned = 0, lpShares = (\<lambda>a. 0), lpDepositTimestamp = (\<lambda>a. 0),
      authorizedBorrowers = (\<lambda>a. False), poolOwner = deployer, poolEvents = []\<rparr>"

definition depositLiquidity ::
  "address \<Rightarrow> uint256 \<Rightarrow> uint256 \<Rightarrow> MortgagePool \<Rightarrow> error + MortgagePool" where
  "depositLiquidity msg_sender msg_value block_timestamp p =
     ebind (require (msg_value > 0) ''Must deposit ETH'') (\<lambda>u.
     ebind (if totalShares p = 0 then Inr msg_value
            else ebind (checked_mul msg_value (totalShares p)) (\<lambda>x.
                 checked_div x (totalLiquidity p))) (\<lambda>shares.
     ebind (checked_mul msg_value INSURANCE_RATE) (\<lambda>x.
     ebind (checked_div x BASIS_POINTS) (\<lambda>insuranceAmount.
     ebind (checked_add (insuranceReserve p) insuranceAmount) (\<lambda>reserve'.
     ebind (checked_add (lpShares p msg_sender) shares) (\<lambda>lp'.
     ebind (checked_add (totalShares p) shares) (\<lambda>totalShares'.
     ebind (checked_add (totalLiquidity p) msg_value) (\<lambda>totalLiquidity'.
     Inr (p\<lparr>insuranceReserve := reserve',
            lpShares := (lpShares p)(msg_sender := lp'),
            totalShares := totalShares',
            totalLiquidity := totalLiquidity',
            lpDepositTimestamp := (lpDepositTimestamp p)(msg_sender := block_timestamp),
            poolEvents := poolEvents p @ [LiquidityDeposited msg_sender msg_value shares]\<rparr>)))))))))"

text \<open>The payout of a withdrawal: \<open>(shares * totalLiquidity) / totalShares\<close>.\<close>

definition ethAmount :: "uint256 \<Rightarrow> MortgagePool \<Rightarrow> error + uint256" where
  "ethAmount shares p =
     ebind (checked_mul shares (totalLiquidity p)) (\<lambda>x. checked_div x (totalShares p))"

definition availableLiquidity :: "MortgagePool \<Rightarrow> error + uint256" where
  "availableLiquidity p = checked_sub (totalLiquidity p) (activeMortgages p)"

definition withdrawLiquidity ::
  "address \<Rightarrow> uint256 \<Rightarrow> bool \<Rightarrow> MortgagePool \<Rightarrow> error + MortgagePool" where
  "withdrawLiquidity msg_sender shares call_success p =
     ebind (require (lpShares p msg_sender \<ge> shares) ''Insufficient shares'') (\<lambda>u.
     ebind (require (shares > 0) ''Must withdraw > 0 shares'') (\<lambda>u.
     ebind (ethAmount shares p) (\<lambda>eth.
     ebind (checked_sub (totalLiquidity p) (activeMortgages p)) (\<lambda>available.
     ebind (require (eth \<le> available)
              ''Insufficient liquidity (funds locked in mortgages)'') (\<lambda>u.
     ebind (checked_sub (lpShares p msg_sender) shares) (\<lambda>lp'.
     ebind (checked_sub (totalShares p) shares) (\<lambda>totalShares'.
     ebind (checked_sub (totalLiquidity p) eth) (\<lambda>totalLiquidity'.
     ebind (require call_success ''ETH transfer failed'') (\<lambda>u.
     Inr (p\<lparr>lpShares := (lpShares p)(msg_sender := lp'),
            totalShares := totalShares',
            totalLiquidity := totalLiquidity',
            poolEvents := poolEvents p @ [LiquidityWithdrawn msg_sender eth shares]\<rparr>))))))))))"

definition fundMortgage ::
  "address \<Rightarrow> address \<Rightarrow> uint256 \<Rightarrow> bool \<Rightarrow> MortgagePool \<Rightarrow> error + MortgagePool" where
  "fundMortgage msg_sender borrower amount call_success p =
     ebind (require (authorizedBorrowers p msg_sender) ''Not authorized'') (\<lambda>u.
     ebind (checked_sub (totalLiquidity p) (activeMortgages p)) (\<lambda>available.
     ebind (require (amount \<le> available) ''Insufficient liquidity'') (\<lambda>u.
     ebind (checked_add (activeMortgages p) amount) (\<lambda>active'.
     ebind (require call_success ''ETH transfer failed'') (\<lambda>u.
     Inr (p\<lparr>activeMortgages := active',
            poolEvents := poolEvents p @ [MortgageFunded borrower amount]\<rparr>))))))"

definition receiveMortgagePayment ::
  "address \<Rightarrow> uint256 \<Rightarrow> uint256 \<Rightarrow> uint256 \<Rightarrow> MortgagePool \<Rightarrow> error + MortgagePool" where
  "receiveMortgagePayment msg_sender msg_value princ interest p =
     ebind (require (authorizedBorrowers p msg_sender) ''Not authorized'') (\<lambda>u.
     ebind (checked_add princ interest) (\<lambda>due.
     ebind (require (msg_value = due) ''Payment amount mismatch'') (\<lambda>u.
     ebind (checked_sub (activeMortgages p) princ) (\<lambda>active'.
     ebind (checked_add (totalLiquidity p) msg_value) (\<lambda>totalLiquidity'.
     ebind (checked_add (totalInterestEarned p) interest) (\<lambda>earned'.
     Inr (p\<lparr>activeMortgages := active',
            totalLiquidity := totalLiquidity',
            totalInterestEarned := earned',
            poolEvents := poolEvents p @ [MortgageRepayment princ interest]\<rparr>)))))))"

definition coverDefault :: "address \<Rightarrow> uint256 \<Rightarrow> MortgagePool \<Rightarrow> error + MortgagePool" where
  "coverDefault msg_sender amount p =
     ebind (require (authorizedBorrowers p msg_sender) ''Not authorized'') (\<lambda>u.
     ebind (require (amount \<le> insuranceReserve p) ''Insufficient insurance reserve'') (\<lambda>u.
     ebind (checked_sub (insuranceReserve p) amount) (\<lambda>reserve'.
     ebind (checked_sub (activeMortgages p) amount) (\<lambda>active'.
     Inr (p\<lparr>insuranceReserve := reserve',
            activeMortgages := active',
            poolEvents := poolEvents p @ [InsurancePayout msg_sender amount]\<rparr>)))))"

definition getShareValue :: "address \<Rightarrow> MortgagePool \<Rightarrow> error + uint256" where
  "getShareValue provider p =
     (if lpShares p provider = 0 \<or> totalShares p = 0 then Inr 0
      else ebind (checked_mul (lpShares p provider) (totalLiquidity p)) (\<lambda>x.
           checked_div x (totalShares p)))"

definition estimatedAPY :: "MortgagePool \<Rightarrow> uint256" where
  "estimatedAPY p = (if totalLiquidity p = 0 then 0 else 350)"

definition onlyOwner :: "address \<Rightarrow> address \<Rightarrow> error + unit" where
  "onlyOwner owner msg_sender =
     (if owner = msg_sender then Inr () else Inl OwnableUnauthorizedAccount)"

definition authorizeBorrower :: "address \<Rightarrow> address \<Rightarrow> MortgagePool \<Rightarrow> error + MortgagePool" where
  "authorizeBorrower msg_sender borrower p =
     ebind (onlyOwner (poolOwner p) msg_sender) (\<lambda>u.
     Inr (p\<lparr>authorizedBorrowers := (authorizedBorrowers p)(borrower := True)\<rparr>))"

definition revokeBorrower :: "address \<Rightarrow> address \<Rightarrow> MortgagePool \<Rightarrow> error + MortgagePool" where
  "revokeBorrower msg_sender borrower p =
     ebind (onlyOwner (poolOwner p) msg_sender) (\<lambda>u.
     Inr (p\<lparr>authorizedBorrowers := (authorizedBorrowers p)(borrower := False)\<rparr>))"

text \<open>
  Every state-changing entry point of the pool, with its caller and arguments, and the
  pool states that a sequence of transactions can reach from deployment.
\<close>

datatype pool_call =
    DepositLiquidity address uint256 uint256
  | WithdrawLiquidity address uint256 bool
  | FundMortgage address address uint256 bool
  | ReceiveMortgagePayment address uint256 uint256 uint256
  | CoverDefault address uint256
  | AuthorizeBorrower address address
  | RevokeBorrower address address

fun pool_exec :: "pool_call \<Rightarrow> MortgagePool \<Rightarrow> error + MortgagePool" where
  "pool_exec (DepositLiquidity s v t) p = depositLiquidity s v t p"
| "pool_exec (WithdrawLiquidity s n ok) p = withdrawLiquidity s n ok p"
| "pool_exec (FundMortgage s b a ok) p = fundMortgage s b a ok p"
| "pool_exec (ReceiveMortgagePayment s v pr i) p = receiveMortgagePayment s v pr i p"
| "pool_exec (CoverDefault s a) p = coverDefault s a p"
| "pool_exec (AuthorizeBorrower s b) p = authorizeBorrower s b p"
| "pool_exec (RevokeBorrower s b) p = revokeBorrower s b p"

inductive pool_reachable :: "MortgagePool \<Rightarrow> bool" where
  deployed: "pool_reachable (newMortgagePool deployer)"
| transact: "pool_reachable p \<Longrightarrow> pool_reachable (commit p (pool_exec c p))"

text \<open>The pool after a list of transactions, each committed or reverted in turn.\<close>

fun pool_run :: "pool_call list \<Rightarrow> MortgagePool \<Rightarrow> MortgagePool" where
  "pool_run [] p = p"
| "pool_run (c # cs) p = pool_run cs (commit p (pool_exec c p))"

text \<open>
  The invariant of the pool's accounting, on the unsigned values of the two counters.
\<close>

definition pool_inv :: "MortgagePool \<Rightarrow> bool" where
  "pool_inv p \<longleftrightarrow> unat (activeMortgages p) \<le> unat (totalLiquidity p)"

text \<open>
  A pool for the examples: the deployer \<open>0\<close> authorizes the manager \<open>9\<close>, provider \<open>1\<close>
  deposits 100 and the manager draws a loan of 80 for borrower \<open>2\<close>.
\<close>

definition pool_example :: MortgagePool where
  "pool_example =
     pool_run [DepositLiquidity 1 100 0, AuthorizeBorrower 0 9, FundMortgage 9 2 80 True]
       (newMortgagePool 0)"

section \<open>PropertyNFT.sol\<close>

text \<open>
  \<open>totalShares\<close> of the \<open>Property\<close> struct is named \<open>propertyShares\<close> here, since the
  pool has a counter of the same name.
\<close>

record Property =
  propertyAddress :: string
  valueUSD :: uint256
  propertyShares :: uint256
  imageURI :: string
  description :: string
  isListed :: bool
  listedTimestamp :: uint256

text \<open>
  The registry: its own storage, the owner of \<open>Ownable\<close>, and the token ownership and
  approvals that it inherits from the ERC-721 base contract (\<open>owners pid = 0\<close> for a
  token that was never minted).
\<close>

record PropertyNFT =
  tokenIdCounter :: uint256
  properties :: "uint256 \<Rightarrow> Property"
  owners :: "uint256 \<Rightarrow> address"
  tokenApprovals :: "uint256 \<Rightarrow> address"
  operatorApprovals :: "address \<Rightarrow> address \<Rightarrow> bool"
  nftOwner :: address
  nftEvents :: "event list"

definition listProperty ::
  "address \<Rightarrow> uint256 \<Rightarrow> uint256 \<Rightarrow> PropertyNFT \<Rightarrow> error + PropertyNFT" where
  "listProperty msg_sender block_timestamp tokenId n =
     ebind (onlyOwner (nftOwner n) msg_sender) (\<lambda>u.
     ebind (require (owners n tokenId \<noteq> 0) ''Property does not exist'') (\<lambda>u.
     Inr (n\<lparr>properties := (properties n)
                (tokenId := (properties n tokenId)
                   \<lparr>isListed := True, listedTimestamp := block_timestamp\<rparr>),
            nftEvents := nftEvents n @ [PropertyListed tokenId block_timestamp]\<rparr>)))"

definition unlistProperty :: "address \<Rightarrow> uint256 \<Rightarrow> PropertyNFT \<Rightarrow> error + PropertyNFT" where
  "unlistProperty msg_sender tokenId n =
     ebind (onlyOwner (nftOwner n) msg_sender) (\<lambda>u.
     Inr (n\<lparr>properties := (properties n)
                (tokenId := (properties n tokenId)\<lparr>isListed := False\<rparr>),
            nftEvents := nftEvents n @ [PropertyUnlisted tokenId]\<rparr>))"

definition getProperty :: "uint256 \<Rightarrow> PropertyNFT \<Rightarrow> error + Property" where
  "getProperty tokenId n =
     ebind (require (owners n tokenId \<noteq> 0) ''Property does not exist'') (\<lambda>u.
     Inr (properties n tokenId))"

text \<open>
  Modelled from the spec: \<open>transferCustody(from, to, id)\<close> of the registry is
  \<open>transferFrom\<close> of the ERC-721 base contract, a library that is not under src/. The
  caller must be the token's owner or hold its approval, the token must belong to
  \<open>from\<close>, and the transfer clears the token's approval.
\<close>

definition isAuthorized :: "address \<Rightarrow> address \<Rightarrow> uint256 \<Rightarrow> PropertyNFT \<Rightarrow> bool" where
  "isAuthorized owner spender tokenId n \<longleftrightarrow>
     spender \<noteq> 0 \<and>
     (owner = spender \<or> operatorApprovals n owner spender \<or> tokenApprovals n tokenId = spender)"

definition transferFrom ::
  "address \<Rightarrow> address \<Rightarrow> address \<Rightarrow> uint256 \<Rightarrow> PropertyNFT \<Rightarrow> error + PropertyNFT" where
  "transferFrom msg_sender from to tokenId n =
     (if to = 0 then Inl ERC721InvalidReceiver
      else if \<not> isAuthorized (owners n tokenId) msg_sender tokenId n then
        (if owners n tokenId = 0 then Inl ERC721NonexistentToken
         else Inl ERC721InsufficientApproval)
      else if owners n tokenId \<noteq> from then Inl ERC721IncorrectOwner
      else Inr (n\<lparr>tokenApprovals := (tokenApprovals n)(tokenId := 0),
                  owners := (owners n)(tokenId := to),
                  nftEvents := nftEvents n @ [Transfer from to tokenId]\<rparr>))"

text \<open>
  Modelled from the spec: the delegation of authority over an asset to the ledger is
  \<open>setApprovalForAll\<close> of the same ERC-721 base contract.
\<close>

definition setApprovalForAll ::
  "address \<Rightarrow> address \<Rightarrow> bool \<Rightarrow> PropertyNFT \<Rightarrow> error + PropertyNFT" where
  "setApprovalForAll msg_sender operator approved n =
     (if operator = 0 then Inl ERC721InvalidReceiver
      else Inr (n\<lparr>operatorApprovals := (operatorApprovals n)
                     (msg_sender := (operatorApprovals n msg_sender)(operator := approved))\<rparr>))"

section \<open>MortgageManager.sol\<close>

text \<open>\<open>MortgageStatus.None\<close> is \<open>NoneStatus\<close>, as \<open>None\<close> is taken by \<open>option\<close>.\<close>

datatype MortgageStatus = NoneStatus | Applied | Active | PaidOff | Defaulted | Foreclosed

record Mortgage =
  propertyId :: uint256
  borrower :: address
  propertyValue :: uint256
  downPayment :: uint256
  loanAmount :: uint256
  interestRateBPS :: uint256
  durationMonths :: uint256
  monthlyPayment :: uint256
  startTimestamp :: uint256
  lastPaymentTimestamp :: uint256
  totalPaid :: uint256
  ownershipSharesBPS :: uint256
  paymentsCount :: uint256
  status :: MortgageStatus

record MortgageManager =
  mortgages :: "uint256 \<Rightarrow> Mortgage"
  borrowerMortgages :: "address \<Rightarrow> uint256 list"
  totalActiveMortgages :: uint256
  defaultInterestRateBPS :: uint256
  managerOwner :: address
  managerEvents :: "event list"

text \<open>
  The three contracts of a deployment: the manager's own storage \<open>manager\<close>, its address
  \<open>this\<close>, and the states of the two contracts it holds references to. A call into
  another contract that reverts makes the whole call revert. ETH balances are not
  modelled: \<open>msg.value\<close> is an argument, and whether the pool's transfer of the loan to the
  borrower succeeds is the parameter \<open>call_success\<close>.
\<close>

record system =
  propertyNFT :: PropertyNFT
  mortgagePool :: MortgagePool
  manager :: MortgageManager
  this :: address

definition SECONDS_PER_MONTH :: uint256 where
  "SECONDS_PER_MONTH = 30 * 86400"

definition LATE_FEE_BPS :: uint256 where
  "LATE_FEE_BPS = 500"

definition GRACE_PERIOD :: uint256 where
  "GRACE_PERIOD = 15 * 86400"

definition DEFAULT_PERIOD :: uint256 where
  "DEFAULT_PERIOD = 90 * 86400"

text \<open>A slot of the \<open>mortgages\<close> mapping that was never written.\<close>

definition emptyMortgage :: Mortgage where
  "emptyMortgage =
     \<lparr>propertyId = 0, borrower = 0, propertyValue = 0, downPayment = 0, loanAmount = 0,
      interestRateBPS = 0, durationMonths = 0, monthlyPayment = 0, startTimestamp = 0,
      lastPaymentTimestamp = 0, totalPaid = 0, ownershipSharesBPS = 0, paymentsCount = 0,
      status = NoneStatus\<rparr>"

definition newMortgageManager :: "address \<Rightarrow> MortgageManager" where
  "newMortgageManager deployer =
     \<lparr>mortgages = (\<lambda>i. emptyMortgage), borrowerMortgages = (\<lambda>a. []),
      totalActiveMortgages = 0, defaultInterestRateBPS = 500, managerOwner = deployer,
      managerEvents = []\<rparr>"

text \<open>
  \<open>totalInterest\<close> is the local variable of \<open>calculateMonthlyPayment\<close>:
  \<open>(principal * annualRateBPS * months) / (BASIS_POINTS * 12)\<close>.
\<close>

definition totalInterest :: "uint256 \<Rightarrow> uint256 \<Rightarrow> uint256 \<Rightarrow> error + uint256" where
  "totalInterest princ annualRateBPS months =
     ebind (checked_mul princ annualRateBPS) (\<lambda>x.
     ebind (checked_mul x months) (\<lambda>y.
     ebind (checked_mul BASIS_POINTS 12) (\<lambda>d.
     checked_div y d)))"

definition calculateMonthlyPayment ::
  "uint256 \<Rightarrow> uint256 \<Rightarrow> uint256 \<Rightarrow> error + uint256" where
  "calculateMonthlyPayment princ annualRateBPS months =
     (if months = 0 then Inr 0
      else
        ebind (checked_div annualRateBPS 12) (\<lambda>monthlyRateBPS.
        ebind (totalInterest princ annualRateBPS months) (\<lambda>interest.
        ebind (checked_add princ interest) (\<lambda>totalPayment.
        checked_div totalPayment months))))"

definition activateMortgage :: "uint256 \<Rightarrow> bool \<Rightarrow> system \<Rightarrow> error + system" where
  "activateMortgage pid call_success s =
     (let mortgage = mortgages (manager s) pid in
      ebind (require (status mortgage = Applied) ''Invalid status'') (\<lambda>u.
      ebind (checked_add (totalActiveMortgages (manager s)) 1) (\<lambda>count'.
      ebind (fundMortgage (this s) (borrower mortgage) (loanAmount mortgage) call_success
               (mortgagePool s)) (\<lambda>pool'.
      ebind (transferFrom (this s) (this s) (borrower mortgage) pid (propertyNFT s)) (\<lambda>nft'.
      ebind (unlistProperty (this s) pid nft') (\<lambda>nft''.
      Inr (s\<lparr>propertyNFT := nft'',
             mortgagePool := pool',
             manager := (manager s)
               \<lparr>mortgages := (mortgages (manager s))(pid := mortgage\<lparr>status := Active\<rparr>),
                totalActiveMortgages := count',
                managerEvents := managerEvents (manager s)
                  @ [MortgageActivated pid (borrower mortgage)]\<rparr>\<rparr>)))))))"

definition applyForMortgage ::
  "address \<Rightarrow> uint256 \<Rightarrow> uint256 \<Rightarrow> uint256 \<Rightarrow> uint256 \<Rightarrow> bool \<Rightarrow> system
     \<Rightarrow> error + system" where
  "applyForMortgage msg_sender msg_value block_timestamp pid months call_success s =
     ebind (getProperty pid (propertyNFT s)) (\<lambda>property.
     ebind (require (isListed property) ''Property not listed'') (\<lambda>u.
     ebind (require (status (mortgages (manager s) pid) = NoneStatus)
              ''Property already mortgaged'') (\<lambda>u.
     ebind (checked_mul (valueUSD property) 1000) (\<lambda>x.
     ebind (checked_div x BASIS_POINTS) (\<lambda>minDownPayment.
     ebind (require (msg_value \<ge> minDownPayment)
              ''Insufficient down payment (min 10%)'') (\<lambda>u.
     ebind (checked_sub (valueUSD property) msg_value) (\<lambda>loan.
     ebind (calculateMonthlyPayment loan (defaultInterestRateBPS (manager s)) months)
       (\<lambda>monthly.
     ebind (availableLiquidity (mortgagePool s)) (\<lambda>available.
     ebind (require (available \<ge> loan) ''Insufficient pool liquidity'') (\<lambda>u.
     ebind (checked_mul msg_value BASIS_POINTS) (\<lambda>y.
     ebind (checked_div y (valueUSD property)) (\<lambda>initialOwnershipBPS.
     activateMortgage pid call_success
       (s\<lparr>manager := (manager s)
           \<lparr>mortgages := (mortgages (manager s))
              (pid := \<lparr>propertyId = pid, borrower = msg_sender,
                       propertyValue = valueUSD property, downPayment = msg_value,
                       loanAmount = loan,
                       interestRateBPS = defaultInterestRateBPS (manager s),
                       durationMonths = months, monthlyPayment = monthly,
                       startTimestamp = block_timestamp,
                       lastPaymentTimestamp = block_timestamp, totalPaid = msg_value,
                       ownershipSharesBPS = initialOwnershipBPS, paymentsCount = 0,
                       status = Applied\<rparr>),
            borrowerMortgages := (borrowerMortgages (manager s))
              (msg_sender := borrowerMortgages (manager s) msg_sender @ [pid]),
            managerEvents := managerEvents (manager s)
              @ [MortgageApplied pid msg_sender loan msg_value]\<rparr>\<rparr>)))))))))))))"

text \<open>
  The local variables of \<open>makePayment\<close>. \<open>expectedPayment\<close> is the monthly payment, plus
  the late fee when more than \<open>SECONDS_PER_MONTH + GRACE_PERIOD\<close> have passed since the
  last payment; \<open>remainingBalance\<close> is \<open>loanAmount - (totalPaid - downPayment)\<close>, computed
  in the same way by \<open>_handleDefault\<close>; \<open>interestPayment\<close> is
  \<open>(remainingBalance * (interestRateBPS / 12)) / BASIS_POINTS\<close>.
\<close>

definition expectedPayment :: "Mortgage \<Rightarrow> uint256 \<Rightarrow> error + uint256" where
  "expectedPayment mortgage block_timestamp =
     ebind (checked_sub block_timestamp (lastPaymentTimestamp mortgage))
       (\<lambda>timeSinceLastPayment.
     if timeSinceLastPayment > SECONDS_PER_MONTH + GRACE_PERIOD then
       ebind (checked_mul (monthlyPayment mortgage) LATE_FEE_BPS) (\<lambda>x.
       ebind (checked_div x BASIS_POINTS) (\<lambda>lateFee.
       checked_add (monthlyPayment mortgage) lateFee))
     else Inr (monthlyPayment mortgage))"

definition remainingBalance :: "Mortgage \<Rightarrow> error + uint256" where
  "remainingBalance mortgage =
     ebind (checked_sub (totalPaid mortgage) (downPayment mortgage)) (\<lambda>paidAmount.
     checked_sub (loanAmount mortgage) paidAmount)"

definition interestPayment :: "Mortgage \<Rightarrow> error + uint256" where
  "interestPayment mortgage =
     ebind (remainingBalance mortgage) (\<lambda>remaining.
     ebind (checked_div (interestRateBPS mortgage) 12) (\<lambda>monthlyInterestRate.
     ebind (checked_mul remaining monthlyInterestRate) (\<lambda>x.
     checked_div x BASIS_POINTS)))"

definition completeMortgage :: "uint256 \<Rightarrow> system \<Rightarrow> error + system" where
  "completeMortgage pid s =
     (let mortgage = mortgages (manager s) pid in
      ebind (checked_sub (totalActiveMortgages (manager s)) 1) (\<lambda>count'.
      Inr (s\<lparr>manager := (manager s)
             \<lparr>mortgages := (mortgages (manager s))
                (pid := mortgage\<lparr>status := PaidOff, ownershipSharesBPS := BASIS_POINTS\<rparr>),
              totalActiveMortgages := count',
              managerEvents := managerEvents (manager s)
                @ [MortgageCompleted pid (borrower mortgage)]\<rparr>\<rparr>)))"

definition makePayment ::
  "address \<Rightarrow> uint256 \<Rightarrow> uint256 \<Rightarrow> uint256 \<Rightarrow> system \<Rightarrow> error + system" where
  "makePayment msg_sender msg_value block_timestamp pid s =
     (let mortgage = mortgages (manager s) pid in
      ebind (require (status mortgage = Active) ''Mortgage not active'') (\<lambda>u.
      ebind (require (msg_sender = borrower mortgage) ''Not the borrower'') (\<lambda>u.
      ebind (expectedPayment mortgage block_timestamp) (\<lambda>expected.
      ebind (require (msg_value \<ge> expected) ''Insufficient payment'') (\<lambda>u.
      ebind (interestPayment mortgage) (\<lambda>interest.
      ebind (checked_sub expected interest) (\<lambda>principalPayment.
      ebind (checked_add (totalPaid mortgage) msg_value) (\<lambda>totalPaid'.
      ebind (checked_add (paymentsCount mortgage) 1) (\<lambda>paymentsCount'.
      ebind (checked_mul totalPaid' BASIS_POINTS) (\<lambda>x.
      ebind (checked_div x (propertyValue mortgage)) (\<lambda>shareBPS.
      (let ownership' = (if shareBPS > BASIS_POINTS then BASIS_POINTS else shareBPS) in
       ebind (receiveMortgagePayment (this s) msg_value principalPayment interest
                (mortgagePool s)) (\<lambda>pool'.
       (let s' = s\<lparr>mortgagePool := pool',
                    manager := (manager s)
                      \<lparr>mortgages := (mortgages (manager s))
                         (pid := mortgage
                            \<lparr>totalPaid := totalPaid',
                             lastPaymentTimestamp := block_timestamp,
                             paymentsCount := paymentsCount',
                             ownershipSharesBPS := ownership'\<rparr>),
                       managerEvents := managerEvents (manager s)
                         @ [PaymentReceived pid msg_sender msg_value ownership']\<rparr>\<rparr>
        in if ownership' \<ge> BASIS_POINTS \<or> paymentsCount' \<ge> durationMonths mortgage
           then completeMortgage pid s' else Inr s'))))))))))))))"

definition foreclose :: "uint256 \<Rightarrow> uint256 \<Rightarrow> system \<Rightarrow> error + system" where
  "foreclose block_timestamp pid s =
     (let mortgage = mortgages (manager s) pid in
      ebind (transferFrom (this s) (borrower mortgage) (this s) pid (propertyNFT s)) (\<lambda>nft'.
      ebind (listProperty (this s) block_timestamp pid nft') (\<lambda>nft''.
      Inr (s\<lparr>propertyNFT := nft'',
             manager := (manager s)
               \<lparr>mortgages := (mortgages (manager s))(pid := mortgage\<lparr>status := Foreclosed\<rparr>),
                managerEvents := managerEvents (manager s)
                  @ [PropertyForeclosed pid (borrower mortgage)]\<rparr>\<rparr>))))"

definition handleDefault :: "uint256 \<Rightarrow> uint256 \<Rightarrow> system \<Rightarrow> error + system" where
  "handleDefault block_timestamp pid s =
     (let mortgage = mortgages (manager s) pid in
      ebind (checked_sub (totalActiveMortgages (manager s)) 1) (\<lambda>count'.
      ebind (remainingBalance mortgage) (\<lambda>remaining.
      ebind (if remaining > 0 then
               ebind (checked_div remaining 2) (\<lambda>insuranceCoverage.
               if insuranceCoverage \<le> insuranceReserve (mortgagePool s)
               then coverDefault (this s) insuranceCoverage (mortgagePool s)
               else Inr (mortgagePool s))
             else Inr (mortgagePool s)) (\<lambda>pool'.
      foreclose block_timestamp pid
        (s\<lparr>mortgagePool := pool',
           manager := (manager s)
             \<lparr>mortgages := (mortgages (manager s))(pid := mortgage\<lparr>status := Defaulted\<rparr>),
              totalActiveMortgages := count',
              managerEvents := managerEvents (manager s)
                @ [MortgageDefaulted pid (borrower mortgage)]\<rparr>\<rparr>)))))"

definition checkDefault :: "uint256 \<Rightarrow> uint256 \<Rightarrow> system \<Rightarrow> error + system" where
  "checkDefault block_timestamp pid s =
     (let mortgage = mortgages (manager s) pid in
      ebind (require (status mortgage = Active) ''Mortgage not active'') (\<lambda>u.
      ebind (checked_sub block_timestamp (lastPaymentTimestamp mortgage))
        (\<lambda>timeSinceLastPayment.
      if timeSinceLastPayment > DEFAULT_PERIOD then handleDefault block_timestamp pid s
      else Inr s)))"

definition getOwnershipPercentage :: "uint256 \<Rightarrow> system \<Rightarrow> uint256" where
  "getOwnershipPercentage pid s = ownershipSharesBPS (mortgages (manager s) pid) div 100"

definition isPaymentOverdue :: "uint256 \<Rightarrow> uint256 \<Rightarrow> system \<Rightarrow> error + bool" where
  "isPaymentOverdue block_timestamp pid s =
     (let mortgage = mortgages (manager s) pid in
      if status mortgage \<noteq> Active then Inr False
      else ebind (checked_sub block_timestamp (lastPaymentTimestamp mortgage))
             (\<lambda>timeSinceLastPayment. Inr (timeSinceLastPayment > SECONDS_PER_MONTH)))"

definition setDefaultInterestRate :: "address \<Rightarrow> uint256 \<Rightarrow> system \<Rightarrow> error + system" where
  "setDefaultInterestRate msg_sender rateBPS s =
     ebind (onlyOwner (managerOwner (manager s)) msg_sender) (\<lambda>u.
     ebind (require (rateBPS \<le> 2000) ''Rate too high (max 20%)'') (\<lambda>u.
     Inr (s\<lparr>manager := (manager s)\<lparr>defaultInterestRateBPS := rateBPS\<rparr>\<rparr>)))"

text \<open>
  The ownership share that the loan record's invariant prescribes:
  \<open>min(10000, totalPaid * 10000 / propertyValue)\<close>, on the unsigned values.
\<close>

definition ownership_of :: "Mortgage \<Rightarrow> nat" where
  "ownership_of mortgage =
     min 10000 (unat (totalPaid mortgage) * 10000 div unat (propertyValue mortgage))"

definition loan_inv :: "Mortgage \<Rightarrow> bool" where
  "loan_inv mortgage \<longleftrightarrow>
     unat (ownershipSharesBPS mortgage) \<le> 10000 \<and>
     (status mortgage = Active \<longrightarrow>
        unat (ownershipSharesBPS mortgage) = ownership_of mortgage)"

text \<open>
  The ownership share of a loan after each of a list of \<open>makePayment\<close> transactions
  \<open>(msg.sender, msg.value, block.timestamp)\<close> on it, in turn.
\<close>

fun payment_trace ::
  "uint256 \<Rightarrow> (address \<times> uint256 \<times> uint256) list \<Rightarrow> system \<Rightarrow> uint256 list" where
  "payment_trace pid [] s = []"
| "payment_trace pid ((sender, paid, time) # calls) s =
     (let s' = commit s (makePayment sender paid time pid s)
      in ownershipSharesBPS (mortgages (manager s') pid) # payment_trace pid calls s')"

text \<open>
  A deployment for the examples, wired the way the deploy script wires one: the deployer
  \<open>0\<close>, the manager at address \<open>9\<close> owning the registry and authorized by the pool,
  property \<open>0\<close> worth 100 and property \<open>1\<close> worth 105 minted to the manager and listed,
  and a first deposit by provider \<open>1\<close>.
\<close>

definition listed_property :: "uint256 \<Rightarrow> Property" where
  "listed_property v =
     \<lparr>propertyAddress = ''123 Blockchain Ave'', valueUSD = v, propertyShares = 1000,
      imageURI = [], description = [], isListed = True, listedTimestamp = 0\<rparr>"

definition registry_example :: PropertyNFT where
  "registry_example =
     \<lparr>tokenIdCounter = 2,
      properties = (\<lambda>i. if i = 0 then listed_property 100 else listed_property 105),
      owners = (\<lambda>i. if i = 0 \<or> i = 1 then 9 else 0),
      tokenApprovals = (\<lambda>i. 0),
      operatorApprovals = (\<lambda>a b. False),
      nftOwner = 9,
      nftEvents = []\<rparr>"

definition system_example :: "uint256 \<Rightarrow> system" where
  "system_example deposit =
     \<lparr>propertyNFT = registry_example,
      mortgagePool = pool_run [AuthorizeBorrower 0 9, DepositLiquidity 1 deposit 0]
        (newMortgagePool 0),
      manager = newMortgageManager 0,
      this = 9\<rparr>"

text \<open>
  Borrower \<open>2\<close> finances property \<open>0\<close> with a down payment of 20 over 12 months at time 0,
  and hands the manager the approval that a later foreclosure needs.
\<close>

definition loan_example :: "uint256 \<Rightarrow> system" where
  "loan_example deposit =
     (let s = commit (system_example deposit)
                (applyForMortgage 2 20 0 0 12 True (system_example deposit))
      in s\<lparr>propertyNFT := commit (propertyNFT s) (setApprovalForAll 2 9 True (propertyNFT s))\<rparr>)"

text \<open>The example loan after \<open>checkDefault\<close>, called one second after the default period.\<close>

definition foreclosed_example :: system where
  "foreclosed_example =
     commit (loan_example 100) (checkDefault (90 * 86400 + 1) 0 (loan_example 100))"

text \<open>
  Custody of an asset is delegated to the manager when the manager owns the registry and
  the borrower, who holds the asset, has approved the manager to transfer it.
\<close>

definition custody_delegated :: "uint256 \<Rightarrow> system \<Rightarrow> bool" where
  "custody_delegated pid s \<longleftrightarrow>
     this s \<noteq> 0 \<and>
     nftOwner (propertyNFT s) = this s \<and>
     owners (propertyNFT s) pid = borrower (mortgages (manager s) pid) \<and>
     isAuthorized (borrower (mortgages (manager s) pid)) (this s) pid (propertyNFT s)"

text \<open>The example loan as the application leaves it, without the borrower's approval.\<close>

definition unapproved_example :: system where
  "unapproved_example =
     commit (system_example 100) (applyForMortgage 2 20 0 0 12 True (system_example 100))"

text \<open>The share of the asset paid for after a payment, before it is capped.\<close>

definition paid_share :: "Mortgage \<Rightarrow> uint256 \<Rightarrow> uint256" where
  "paid_share m v = (totalPaid m + v) * BASIS_POINTS div propertyValue m"

definition capped_share :: "Mortgage \<Rightarrow> uint256 \<Rightarrow> uint256" where
  "capped_share m v = (if BASIS_POINTS < paid_share m v then BASIS_POINTS else paid_share m v)"

section \<open>Checked arithmetic on unsigned values\<close>

lemma limit_len: "uint256_limit = 2 ^ LENGTH(256)"
  by (simp add: uint256_limit_def)

lemma unat_lt_limit: "unat (x :: uint256) < uint256_limit"
  unfolding limit_len by (rule unsigned_less)

lemma ebind_Inr: "ebind m f = Inr y \<longleftrightarrow> (\<exists>x. m = Inr x \<and> f x = Inr y)"
  by (cases m) auto

lemma ebind_InrE:
  assumes "ebind m f = Inr y"
  obtains x where "m = Inr x" and "f x = Inr y"
  using assms by (cases m) auto

lemma require_Inr: "require c msg = Inr u \<longleftrightarrow> c"
  by (simp add: require_def)

lemma checked_add_Inr:
  "checked_add a b = Inr c \<longleftrightarrow> unat a + unat b < uint256_limit \<and> c = a + b"
  by (auto simp: checked_add_def)

lemma unat_add_checked:
  "unat a + unat b < uint256_limit \<Longrightarrow> unat ((a :: uint256) + b) = unat a + unat b"
  unfolding limit_len by (simp only: unat_add_lem)

lemma checked_mul_Inr:
  "checked_mul a b = Inr c \<longleftrightarrow> unat a * unat b < uint256_limit \<and> c = a * b"
  by (auto simp: checked_mul_def)

lemma unat_mul_checked:
  "unat a * unat b < uint256_limit \<Longrightarrow> unat ((a :: uint256) * b) = unat a * unat b"
  unfolding limit_len by (simp only: unat_mult_lem)

lemma checked_sub_Inr:
  "checked_sub a b = Inr c \<longleftrightarrow> unat b \<le> unat a \<and> c = a - b"
  by (auto simp: checked_sub_def word_le_nat_alt)

lemma unat_sub_checked:
  "unat b \<le> unat a \<Longrightarrow> unat ((a :: uint256) - b) = unat a - unat b"
  by (simp add: unat_sub word_le_nat_alt)

lemma checked_div_Inr:
  "checked_div a b = Inr c \<longleftrightarrow> unat b \<noteq> 0 \<and> c = a div b"
  by (auto simp: checked_div_def unat_eq_0)

lemmas checked_Inr = checked_add_Inr checked_sub_Inr checked_mul_Inr checked_div_Inr
lemmas unat_checked = unat_add_checked unat_sub_checked unat_mul_checked unat_div
lemmas checked_defs = require_def checked_add_def checked_sub_def checked_mul_def
  checked_div_def uint256_limit_def

lemma unat_BASIS_POINTS: "unat BASIS_POINTS = 10000"
  by (simp add: BASIS_POINTS_def)

lemma unat_INSURANCE_RATE: "unat INSURANCE_RATE = 200"
  by (simp add: INSURANCE_RATE_def)

section \<open>The pool never lends more than it holds\<close>

lemma deposit_inv:
  "pool_inv p \<Longrightarrow> depositLiquidity s v t p = Inr p' \<Longrightarrow> pool_inv p'"
  by (auto simp: depositLiquidity_def pool_inv_def ebind_Inr require_Inr checked_Inr
      unat_checked)

lemma withdraw_inv:
  "pool_inv p \<Longrightarrow> withdrawLiquidity s n ok p = Inr p' \<Longrightarrow> pool_inv p'"
  by (auto simp: withdrawLiquidity_def pool_inv_def ebind_Inr require_Inr checked_Inr
      unat_checked word_le_nat_alt)

lemma fund_inv:
  "pool_inv p \<Longrightarrow> fundMortgage s b a ok p = Inr p' \<Longrightarrow> pool_inv p'"
  by (auto simp: fundMortgage_def pool_inv_def ebind_Inr require_Inr checked_Inr
      unat_checked word_le_nat_alt)

lemma receive_inv:
  "pool_inv p \<Longrightarrow> receiveMortgagePayment s v pr i p = Inr p' \<Longrightarrow> pool_inv p'"
  by (auto simp: receiveMortgagePayment_def pool_inv_def ebind_Inr require_Inr checked_Inr
      unat_checked word_le_nat_alt)

lemma cover_inv:
  "pool_inv p \<Longrightarrow> coverDefault s a p = Inr p' \<Longrightarrow> pool_inv p'"
  by (auto simp: coverDefault_def pool_inv_def ebind_Inr require_Inr checked_Inr
      unat_checked word_le_nat_alt)

lemma authorize_inv:
  "pool_inv p \<Longrightarrow> authorizeBorrower s b p = Inr p' \<Longrightarrow> pool_inv p'"
  "pool_inv p \<Longrightarrow> revokeBorrower s b p = Inr p' \<Longrightarrow> pool_inv p'"
  by (auto simp: authorizeBorrower_def revokeBorrower_def pool_inv_def ebind_Inr)

lemma pool_exec_inv:
  "pool_inv p \<Longrightarrow> pool_exec c p = Inr p' \<Longrightarrow> pool_inv p'"
  by (cases c)
    (auto intro: deposit_inv withdraw_inv fund_inv receive_inv cover_inv authorize_inv)

lemma pool_reachable_inv: "pool_reachable p \<Longrightarrow> pool_inv p"
proof (induction rule: pool_reachable.induct)
  case (deployed d)
  show ?case by (simp add: pool_inv_def newMortgagePool_def)
next
  case (transact p c)
  then show ?case
    by (cases "pool_exec c p") (auto simp: commit_def intro: pool_exec_inv)
qed

lemma pool_run_reachable: "pool_reachable p \<Longrightarrow> pool_reachable (pool_run cs p)"
  by (induction cs arbitrary: p) (auto intro: pool_reachable.transact)

lemma withdraw_payout:
  assumes "withdrawLiquidity s n ok p = Inr p'"
  shows "unat (activeMortgages p)
           + unat n * unat (totalLiquidity p) div unat (totalShares p)
         \<le> unat (totalLiquidity p)"
  using assms
  by (auto simp: withdrawLiquidity_def ethAmount_def ebind_Inr require_Inr checked_Inr
      unat_checked word_le_nat_alt)

lemma fund_amount:
  assumes "fundMortgage s b a ok p = Inr p'"
  shows "unat (activeMortgages p) + unat a \<le> unat (totalLiquidity p)"
  using assms
  by (auto simp: fundMortgage_def ebind_Inr require_Inr checked_Inr unat_checked
      word_le_nat_alt)

lemma pool_example_fields:
  "totalLiquidity pool_example = 100" "totalShares pool_example = 100"
  "activeMortgages pool_example = 80" "insuranceReserve pool_example = 2"
  "lpShares pool_example 1 = 100" "authorizedBorrowers pool_example 9"
  by (simp_all add: pool_example_def newMortgagePool_def depositLiquidity_def
      authorizeBorrower_def fundMortgage_def onlyOwner_def commit_def checked_defs
      INSURANCE_RATE_def BASIS_POINTS_def)

lemma pool_example_reachable: "pool_reachable pool_example"
  unfolding pool_example_def by (intro pool_run_reachable pool_reachable.deployed)

text \<open>
  C3. In every pool state reachable from deployment, \<open>activeMortgages\<close> is at most
  \<open>totalLiquidity\<close>, so \<open>availableLiquidity()\<close> returns their difference and never
  underflows; every pool operation that returns keeps it so (one that reverts changes
  nothing), and a withdrawal or a loan funding returns only when the amount paid out
  fits into the available liquidity.
\<close>

theorem pool_liquidity_invariant:
  assumes "pool_reachable p"
  shows "activeMortgages p \<le> totalLiquidity p
    \<and> availableLiquidity p = Inr (totalLiquidity p - activeMortgages p)
    \<and> (\<forall>c p'. pool_exec c p = Inr p' \<longrightarrow> activeMortgages p' \<le> totalLiquidity p')
    \<and> (\<forall>s n ok p'. withdrawLiquidity s n ok p = Inr p' \<longrightarrow>
          unat (activeMortgages p) + unat n * unat (totalLiquidity p) div unat (totalShares p)
            \<le> unat (totalLiquidity p))
    \<and> (\<forall>s b a ok p'. fundMortgage s b a ok p = Inr p' \<longrightarrow>
          unat (activeMortgages p) + unat a \<le> unat (totalLiquidity p))"
proof -
  have inv: "pool_inv p"
    using assms by (rule pool_reachable_inv)
  then have le: "activeMortgages p \<le> totalLiquidity p"
    by (simp add: pool_inv_def word_le_nat_alt)
  have step: "activeMortgages p' \<le> totalLiquidity p'" if "pool_exec c p = Inr p'" for c p'
    using pool_exec_inv [OF inv that] by (simp add: pool_inv_def word_le_nat_alt)
  show ?thesis
    using le step withdraw_payout fund_amount
    by (simp add: availableLiquidity_def checked_sub_def)
qed

theorem pool_liquidity_invariant_witness:
  "pool_reachable pool_example
   \<and> activeMortgages pool_example = 80 \<and> totalLiquidity pool_example = 100
   \<and> availableLiquidity pool_example = Inr 20
   \<and> withdrawLiquidity 1 30 True pool_example
        = Inl (Revert ''Insufficient liquidity (funds locked in mortgages)'')
   \<and> fundMortgage 9 2 30 True pool_example = Inl (Revert ''Insufficient liquidity'')
   \<and> (\<exists>p'. pool_exec (WithdrawLiquidity 1 20 True) pool_example = Inr p'
          \<and> activeMortgages p' = 80 \<and> totalLiquidity p' = 80)"
  using pool_liquidity_invariant [OF pool_example_reachable] pool_example_reachable
  by (simp add: pool_example_fields withdrawLiquidity_def fundMortgage_def ethAmount_def
      checked_defs)

section \<open>Withdrawals against locked liquidity\<close>

text \<open>
  C6. A withdrawal request whose payout \<open>shares * totalLiquidity / totalShares\<close> exceeds
  \<open>totalLiquidity - activeMortgages\<close> always reverts, and the pool, with the caller's
  shares, \<open>totalShares\<close> and \<open>totalLiquidity\<close>, is left as it was. When the request
  passes the share checks, so that the payout is computed, the revert is "Insufficient
  liquidity (funds locked in mortgages)".
\<close>

theorem withdrawLiquidity_locked:
  assumes "unat (totalLiquidity p) - unat (activeMortgages p)
             < unat shares * unat (totalLiquidity p) div unat (totalShares p)"
  shows "(\<exists>e. withdrawLiquidity msg_sender shares call_success p = Inl e)
    \<and> commit p (withdrawLiquidity msg_sender shares call_success p) = p
    \<and> (shares \<le> lpShares p msg_sender \<and> 0 < shares
         \<and> unat shares * unat (totalLiquidity p) < uint256_limit
         \<and> activeMortgages p \<le> totalLiquidity p \<longrightarrow>
         withdrawLiquidity msg_sender shares call_success p
           = Inl (Revert ''Insufficient liquidity (funds locked in mortgages)''))"
proof -
  have fails: "\<exists>e. withdrawLiquidity msg_sender shares call_success p = Inl e"
  proof (cases "withdrawLiquidity msg_sender shares call_success p")
    case (Inl e)
    then show ?thesis by blast
  next
    case (Inr p')
    from withdraw_payout [OF Inr] assms show ?thesis by simp
  qed
  then have same: "commit p (withdrawLiquidity msg_sender shares call_success p) = p"
    by (auto simp: commit_def)
  have locked: "withdrawLiquidity msg_sender shares call_success p
           = Inl (Revert ''Insufficient liquidity (funds locked in mortgages)'')"
    if h: "shares \<le> lpShares p msg_sender \<and> 0 < shares
         \<and> unat shares * unat (totalLiquidity p) < uint256_limit
         \<and> activeMortgages p \<le> totalLiquidity p"
  proof -
    have nz: "totalShares p \<noteq> 0"
      using assms by (cases "totalShares p = 0") simp_all
    have eth: "ethAmount shares p = Inr (shares * totalLiquidity p div totalShares p)"
      using nz h by (simp add: ethAmount_def checked_mul_def checked_div_def)
    have av: "checked_sub (totalLiquidity p) (activeMortgages p)
                = Inr (totalLiquidity p - activeMortgages p)"
      using h by (simp add: checked_sub_def)
    have "unat (totalLiquidity p - activeMortgages p)
            < unat (shares * totalLiquidity p div totalShares p)"
      using assms h by (simp add: unat_checked word_le_nat_alt)
    then have "\<not> shares * totalLiquidity p div totalShares p
                 \<le> totalLiquidity p - activeMortgages p"
      by (simp add: word_le_nat_alt)
    then show ?thesis
      using h eth av
      by (simp add: withdrawLiquidity_def require_def)
  qed
  from fails same locked show ?thesis by blast
qed

theorem withdrawLiquidity_locked_witness:
  "unat (totalLiquidity pool_example) - unat (activeMortgages pool_example) = 20
   \<and> unat (30 :: uint256) * unat (totalLiquidity pool_example)
        div unat (totalShares pool_example) = 30
   \<and> (30 :: uint256) \<le> lpShares pool_example 1
   \<and> withdrawLiquidity 1 30 True pool_example
        = Inl (Revert ''Insufficient liquidity (funds locked in mortgages)'')
   \<and> commit pool_example (withdrawLiquidity 1 30 True pool_example) = pool_example"
  using withdrawLiquidity_locked [of pool_example 30 1 True]
  by (simp add: pool_example_fields uint256_limit_def commit_def)

section \<open>Deposits\<close>

lemmas pool_defs = newMortgagePool_def depositLiquidity_def withdrawLiquidity_def
  fundMortgage_def receiveMortgagePayment_def coverDefault_def authorizeBorrower_def
  onlyOwner_def ethAmount_def availableLiquidity_def INSURANCE_RATE_def BASIS_POINTS_def
  commit_def

lemma depositLiquidity_returns:
  assumes "0 < v"
    and "totalShares p \<noteq> 0 \<Longrightarrow>
           totalLiquidity p \<noteq> 0 \<and> unat v * unat (totalShares p) < uint256_limit"
    and "unat (insuranceReserve p) + unat v * 200 div 10000 < uint256_limit"
    and "unat (lpShares p sender) + unat v < uint256_limit"
    and "unat (totalShares p) + unat v < uint256_limit"
    and "unat (totalLiquidity p) + unat v < uint256_limit"
    and "unat (totalShares p) \<le> unat (totalLiquidity p)"
    and "unat v * 200 < uint256_limit"
  shows "\<exists>p'. depositLiquidity sender v t p = Inr p'"
proof -
  define shares where
    "shares = (if totalShares p = 0 then v else v * totalShares p div totalLiquidity p)"
  have "unat shares \<le> unat v"
  proof (cases "totalShares p = 0")
    case True
    then show ?thesis by (simp add: shares_def)
  next
    case False
    with assms(2) have nz: "totalLiquidity p \<noteq> 0"
      and m: "unat v * unat (totalShares p) < uint256_limit" by simp_all
    have "unat v * unat (totalShares p) div unat (totalLiquidity p)
            \<le> unat v * unat (totalLiquidity p) div unat (totalLiquidity p)"
      using assms(7) by (intro div_le_mono mult_le_mono2)
    also have "\<dots> = unat v"
      using nz by (simp add: unat_eq_0)
    finally show ?thesis
      using False m by (simp add: shares_def unat_checked)
  qed
  then have a: "unat (lpShares p sender) + unat shares < uint256_limit"
    and b: "unat (totalShares p) + unat shares < uint256_limit"
    using assms(4,5) by simp_all
  have c: "unat (insuranceReserve p) + unat (v * INSURANCE_RATE div BASIS_POINTS) < uint256_limit"
    using assms(3,8) by (simp add: unat_checked unat_INSURANCE_RATE unat_BASIS_POINTS)
  show ?thesis
  proof (cases "totalShares p = 0")
    case True
    then show ?thesis
      using assms(1,6,8) a b c
      by (simp add: depositLiquidity_def require_def checked_add_def checked_mul_def
          checked_div_def shares_def unat_INSURANCE_RATE BASIS_POINTS_def)
  next
    case False
    with assms(2) have "totalLiquidity p \<noteq> 0"
      and "unat v * unat (totalShares p) < uint256_limit" by simp_all
    then show ?thesis
      using False assms(1,6,8) a b c
      by (simp add: depositLiquidity_def require_def checked_add_def checked_mul_def
          checked_div_def shares_def unat_INSURANCE_RATE BASIS_POINTS_def)
  qed
qed

text \<open>
  C7. A deposit of \<open>msg.value > 0\<close> that returns mints \<open>msg.value\<close> shares when
  \<open>totalShares\<close> is zero and \<open>floor(msg.value * totalShares / totalLiquidity)\<close> shares
  otherwise, to the depositor and to \<open>totalShares\<close>; it adds
  \<open>msg.value * 200 / 10000\<close> to the insurance reserve and the whole of \<open>msg.value\<close> to
  \<open>totalLiquidity\<close>, the reserve's cut not being taken off the liquidity that prices the
  shares. A deposit of zero reverts with "Must deposit ETH". The deposit returns
  whenever none of its sums and products leaves the 256-bit range.
\<close>

theorem depositLiquidity_shares:
  "(msg_value = 0 \<longrightarrow>
      depositLiquidity msg_sender msg_value now p = Inl (Revert ''Must deposit ETH''))
   \<and> (\<forall>p'. depositLiquidity msg_sender msg_value now p = Inr p' \<longrightarrow>
         0 < msg_value
       \<and> unat (lpShares p' msg_sender)
           = unat (lpShares p msg_sender)
             + (if totalShares p = 0 then unat msg_value
                else unat msg_value * unat (totalShares p) div unat (totalLiquidity p))
       \<and> unat (totalShares p')
           = unat (totalShares p)
             + (if totalShares p = 0 then unat msg_value
                else unat msg_value * unat (totalShares p) div unat (totalLiquidity p))
       \<and> unat (insuranceReserve p')
           = unat (insuranceReserve p) + unat msg_value * 200 div 10000
       \<and> unat (totalLiquidity p') = unat (totalLiquidity p) + unat msg_value)
   \<and> (0 < msg_value
        \<and> (totalShares p \<noteq> 0 \<longrightarrow>
             totalLiquidity p \<noteq> 0 \<and> unat msg_value * unat (totalShares p) < uint256_limit)
        \<and> unat (insuranceReserve p) + unat msg_value * 200 div 10000 < uint256_limit
        \<and> unat (lpShares p msg_sender) + unat msg_value < uint256_limit
        \<and> unat (totalShares p) + unat msg_value < uint256_limit
        \<and> unat (totalLiquidity p) + unat msg_value < uint256_limit
        \<and> unat (totalShares p) \<le> unat (totalLiquidity p)
        \<and> unat msg_value * 200 < uint256_limit \<longrightarrow>
        (\<exists>p'. depositLiquidity msg_sender msg_value now p = Inr p'))"
proof -
  have A: "depositLiquidity msg_sender msg_value now p = Inl (Revert ''Must deposit ETH'')"
    if "msg_value = 0"
    using that by (simp add: depositLiquidity_def require_def)
  have B: "0 < msg_value
       \<and> unat (lpShares p' msg_sender)
           = unat (lpShares p msg_sender)
             + (if totalShares p = 0 then unat msg_value
                else unat msg_value * unat (totalShares p) div unat (totalLiquidity p))
       \<and> unat (totalShares p')
           = unat (totalShares p)
             + (if totalShares p = 0 then unat msg_value
                else unat msg_value * unat (totalShares p) div unat (totalLiquidity p))
       \<and> unat (insuranceReserve p')
           = unat (insuranceReserve p) + unat msg_value * 200 div 10000
       \<and> unat (totalLiquidity p') = unat (totalLiquidity p) + unat msg_value"
    if "depositLiquidity msg_sender msg_value now p = Inr p'" for p'
    using that
    by (auto simp: depositLiquidity_def ebind_Inr require_def checked_Inr unat_checked
        unat_BASIS_POINTS unat_INSURANCE_RATE split: if_splits)
  have C: "\<exists>p'. depositLiquidity msg_sender msg_value now p = Inr p'"
    if "0 < msg_value
        \<and> (totalShares p \<noteq> 0 \<longrightarrow>
             totalLiquidity p \<noteq> 0 \<and> unat msg_value * unat (totalShares p) < uint256_limit)
        \<and> unat (insuranceReserve p) + unat msg_value * 200 div 10000 < uint256_limit
        \<and> unat (lpShares p msg_sender) + unat msg_value < uint256_limit
        \<and> unat (totalShares p) + unat msg_value < uint256_limit
        \<and> unat (totalLiquidity p) + unat msg_value < uint256_limit
        \<and> unat (totalShares p) \<le> unat (totalLiquidity p)
        \<and> unat msg_value * 200 < uint256_limit"
    by (rule depositLiquidity_returns) (use that in simp_all)
  show ?thesis
    using A B C by (intro conjI allI impI) blast+
qed

lemma pool_example_lp3: "lpShares pool_example 3 = 0"
  by (simp add: pool_example_def pool_defs checked_defs)

theorem depositLiquidity_shares_witness:
  "(\<exists>p'. depositLiquidity 1 100 0 (newMortgagePool 0) = Inr p'
        \<and> unat (lpShares p' 1) = 100 \<and> unat (totalShares p') = 100
        \<and> unat (insuranceReserve p') = 2 \<and> unat (totalLiquidity p') = 100)
   \<and> depositLiquidity 1 0 0 (newMortgagePool 0) = Inl (Revert ''Must deposit ETH'')
   \<and> (\<exists>p'. depositLiquidity 3 50 0 (pool_example\<lparr>totalLiquidity := 107\<rparr>) = Inr p'
        \<and> unat (lpShares p' 3) = 50 * 100 div 107 \<and> unat (totalShares p') = 146
        \<and> unat (insuranceReserve p') = 3 \<and> unat (totalLiquidity p') = 157)"
proof -
  have a: "\<exists>p'. depositLiquidity 1 100 0 (newMortgagePool 0) = Inr p'
        \<and> unat (lpShares p' 1) = 100 \<and> unat (totalShares p') = 100
        \<and> unat (insuranceReserve p') = 2 \<and> unat (totalLiquidity p') = 100"
    using depositLiquidity_shares [of 100 1 0 "newMortgagePool 0"]
    by (auto simp: newMortgagePool_def uint256_limit_def)
  have b: "depositLiquidity 1 0 0 (newMortgagePool 0) = Inl (Revert ''Must deposit ETH'')"
    using depositLiquidity_shares [of 0 1 0 "newMortgagePool 0"] by simp
  have c: "\<exists>p'. depositLiquidity 3 50 0 (pool_example\<lparr>totalLiquidity := 107\<rparr>) = Inr p'
        \<and> unat (lpShares p' 3) = 50 * 100 div 107 \<and> unat (totalShares p') = 146
        \<and> unat (insuranceReserve p') = 3 \<and> unat (totalLiquidity p') = 157"
    using depositLiquidity_shares [of 50 3 0 "pool_example\<lparr>totalLiquidity := 107\<rparr>"]
    by (auto simp: pool_example_fields pool_example_lp3 uint256_limit_def)
  show ?thesis
    using a b c by (intro conjI)
qed

section \<open>Origination\<close>

lemma activateMortgage_mortgage:
  assumes "activateMortgage pid ok s = Inr s'"
  shows "mortgages (manager s') pid = (mortgages (manager s) pid)\<lparr>status := Active\<rparr>"
    and "status (mortgages (manager s) pid) = Applied"
    and "\<exists>p'. fundMortgage (this s) (borrower (mortgages (manager s) pid))
            (loanAmount (mortgages (manager s) pid)) ok (mortgagePool s) = Inr p' \<and> mortgagePool s' = p'"
  using assms
  by (auto simp: activateMortgage_def Let_def ebind_Inr require_Inr)

lemma activateMortgage_unlists:
  assumes "activateMortgage pid ok s = Inr s'"
  shows "\<not> isListed (properties (propertyNFT s') pid)"
  using assms
  by (auto simp: activateMortgage_def Let_def ebind_Inr unlistProperty_def)

lemma applyForMortgage_unlists:
  assumes "applyForMortgage sender v t pid months ok s = Inr s'"
  shows "\<not> isListed (properties (propertyNFT s') pid)"
  using assms unfolding applyForMortgage_def
  by (elim ebind_InrE) (rule activateMortgage_unlists)

lemma applyForMortgage_mortgage:
  assumes "applyForMortgage sender v t pid months ok s = Inr s'"
  shows "\<exists>loan monthly own.
     owners (propertyNFT s) pid \<noteq> 0
   \<and> isListed (properties (propertyNFT s) pid)
   \<and> status (mortgages (manager s) pid) = NoneStatus
   \<and> unat (valueUSD (properties (propertyNFT s) pid)) * 1000 < uint256_limit
   \<and> valueUSD (properties (propertyNFT s) pid) * 1000 div BASIS_POINTS \<le> v
   \<and> checked_sub (valueUSD (properties (propertyNFT s) pid)) v = Inr loan
   \<and> calculateMonthlyPayment loan (defaultInterestRateBPS (manager s)) months = Inr monthly
   \<and> unat (activeMortgages (mortgagePool s)) + unat loan \<le> unat (totalLiquidity (mortgagePool s))
   \<and> unat v * 10000 < uint256_limit
   \<and> valueUSD (properties (propertyNFT s) pid) \<noteq> 0
   \<and> own = v * BASIS_POINTS div valueUSD (properties (propertyNFT s) pid)
   \<and> mortgages (manager s') pid =
       \<lparr>propertyId = pid, borrower = sender,
        propertyValue = valueUSD (properties (propertyNFT s) pid), downPayment = v,
        loanAmount = loan, interestRateBPS = defaultInterestRateBPS (manager s),
        durationMonths = months, monthlyPayment = monthly, startTimestamp = t,
        lastPaymentTimestamp = t, totalPaid = v, ownershipSharesBPS = own,
        paymentsCount = 0, status = Active\<rparr>"
  using assms
  unfolding applyForMortgage_def
  by (auto simp: ebind_Inr require_Inr getProperty_def availableLiquidity_def
      checked_mul_Inr checked_div_Inr checked_sub_Inr unat_BASIS_POINTS unat_checked word_le_nat_alt unat_eq_0
      dest!: activateMortgage_mortgage(1))

lemmas registry_defs = getProperty_def listProperty_def unlistProperty_def transferFrom_def
  isAuthorized_def setApprovalForAll_def registry_example_def listed_property_def

lemmas manager_defs = applyForMortgage_def activateMortgage_def calculateMonthlyPayment_def
  totalInterest_def newMortgageManager_def emptyMortgage_def system_example_def Let_def

lemma loan_example_mortgage:
  "mortgages (manager (loan_example 100)) 0 =
     \<lparr>propertyId = 0, borrower = 2, propertyValue = 100, downPayment = 20, loanAmount = 80,
      interestRateBPS = 500, durationMonths = 12, monthlyPayment = 7, startTimestamp = 0,
      lastPaymentTimestamp = 0, totalPaid = 20, ownershipSharesBPS = 2000, paymentsCount = 0,
      status = Active\<rparr>"
  by (simp add: loan_example_def manager_defs registry_defs pool_defs checked_defs)

lemma loan_example_mortgage':
  "mortgages (manager (loan_example 5000)) 0 =
     \<lparr>propertyId = 0, borrower = 2, propertyValue = 100, downPayment = 20, loanAmount = 80,
      interestRateBPS = 500, durationMonths = 12, monthlyPayment = 7, startTimestamp = 0,
      lastPaymentTimestamp = 0, totalPaid = 20, ownershipSharesBPS = 2000, paymentsCount = 0,
      status = Active\<rparr>"
  by (simp add: loan_example_def manager_defs registry_defs pool_defs checked_defs)

lemma loan_example_pool:
  "totalLiquidity (mortgagePool (loan_example 100)) = 100"
  "activeMortgages (mortgagePool (loan_example 100)) = 80"
  "insuranceReserve (mortgagePool (loan_example 100)) = 2"
  "authorizedBorrowers (mortgagePool (loan_example 100)) 9"
  "totalInterestEarned (mortgagePool (loan_example 100)) = 0"
  by (simp_all add: loan_example_def manager_defs registry_defs pool_defs checked_defs)

lemma loan_example_registry:
  "owners (propertyNFT (loan_example 100)) 0 = 2"
  "\<not> isListed (properties (propertyNFT (loan_example 100)) 0)"
  "operatorApprovals (propertyNFT (loan_example 100)) 2 9"
  "nftOwner (propertyNFT (loan_example 100)) = 9"
  "this (loan_example 100) = 9"
  by (simp_all add: loan_example_def manager_defs registry_defs pool_defs checked_defs)

lemma totalInterest_Inr:
  "totalInterest p r m = Inr i \<longleftrightarrow>
     unat p * unat r < uint256_limit \<and> unat p * unat r * unat m < uint256_limit \<and>
     i = p * r * m div (BASIS_POINTS * 12)"
  by (auto simp: totalInterest_def ebind_Inr checked_Inr unat_checked unat_BASIS_POINTS
      uint256_limit_def)

lemma unat_totalInterest:
  assumes "totalInterest p r m = Inr i"
  shows "unat i = unat p * unat r * unat m div (10000 * 12)"
proof -
  from assms have a: "unat p * unat r < uint256_limit"
    and b: "unat p * unat r * unat m < uint256_limit"
    and i: "i = p * r * m div (BASIS_POINTS * 12)"
    by (simp_all add: totalInterest_Inr)
  have c: "unat (p * r * m) = unat p * unat r * unat m"
    using a b by (simp add: unat_checked)
  have d: "unat (BASIS_POINTS * 12) = 10000 * 12"
    by (simp add: BASIS_POINTS_def)
  show ?thesis
    unfolding i unat_div c d ..
qed

lemma calculateMonthlyPayment_Inr:
  assumes "months \<noteq> 0" and "calculateMonthlyPayment p r months = Inr v"
  shows "unat v = (unat p + unat p * unat r * unat months div (10000 * 12)) div unat months"
proof -
  from assms obtain i where i: "totalInterest p r months = Inr i"
    and s: "unat p + unat i < uint256_limit" and v: "v = (p + i) div months"
    by (auto simp: calculateMonthlyPayment_def ebind_Inr checked_Inr)
  show ?thesis
    unfolding v unat_div unat_add_checked [OF s] unat_totalInterest [OF i] ..
qed

lemma calculateMonthlyPayment_returns:
  assumes "months \<noteq> 0"
    and "unat p * unat r * unat months < uint256_limit"
    and "unat p + unat p * unat r * unat months div (10000 * 12) < uint256_limit"
  shows "\<exists>v. calculateMonthlyPayment p r months = Inr v"
proof -
  have "0 < unat months"
    using assms(1) by (simp add: unat_gt_0)
  then have "unat p * unat r \<le> unat p * unat r * unat months"
    by simp
  then have a: "unat p * unat r < uint256_limit"
    using assms(2) by (rule le_less_trans)
  then have i: "totalInterest p r months = Inr (p * r * months div (BASIS_POINTS * 12))"
    using assms(2) by (simp add: totalInterest_Inr)
  have "unat p + unat (p * r * months div (BASIS_POINTS * 12)) < uint256_limit"
    using assms(3) unat_totalInterest [OF i] by simp
  then show ?thesis
    using assms(1) i
    by (simp add: calculateMonthlyPayment_def checked_div_def checked_add_def)
qed

text \<open>
  C8. For a term of \<open>months > 0\<close>, the monthly payment that \<open>calculateMonthlyPayment\<close>
  returns is \<open>(principal + principal * annualRateBPS * months div (10000 * 12)) div months\<close>
  in exact floor division; it returns whenever neither the product nor the sum leaves
  the 256-bit range (otherwise the call reverts with an overflow panic), and this is the
  amount that an accepted application records. For a principal of 80 at 500 bps over 12
  months the total interest is 4 and the monthly payment is 7.
\<close>

theorem calculateMonthlyPayment_formula:
  "(\<forall>v. months \<noteq> 0 \<and> calculateMonthlyPayment p r months = Inr v \<longrightarrow>
        unat v = (unat p + unat p * unat r * unat months div (10000 * 12)) div unat months)
   \<and> (months \<noteq> 0 \<and> unat p * unat r * unat months < uint256_limit
        \<and> unat p + unat p * unat r * unat months div (10000 * 12) < uint256_limit \<longrightarrow>
        (\<exists>v. calculateMonthlyPayment p r months = Inr v))
   \<and> (\<forall>sender paid time pid ok s s'.
        applyForMortgage sender paid time pid months ok s = Inr s' \<longrightarrow>
        calculateMonthlyPayment (loanAmount (mortgages (manager s') pid))
          (interestRateBPS (mortgages (manager s') pid)) months
          = Inr (monthlyPayment (mortgages (manager s') pid)))
   \<and> totalInterest 80 500 12 = Inr 4
   \<and> calculateMonthlyPayment 80 500 12 = Inr 7"
proof -
  have "totalInterest 80 500 12 = Inr 4"
    by (simp add: totalInterest_def checked_defs BASIS_POINTS_def)
  moreover have "calculateMonthlyPayment 80 500 12 = Inr 7"
    by (simp add: calculateMonthlyPayment_def totalInterest_def checked_defs BASIS_POINTS_def)
  moreover have "calculateMonthlyPayment (loanAmount (mortgages (manager s') pid))
          (interestRateBPS (mortgages (manager s') pid)) months
          = Inr (monthlyPayment (mortgages (manager s') pid))"
    if "applyForMortgage sender paid time pid months ok s = Inr s'"
    for sender paid time pid ok s s'
    using applyForMortgage_mortgage [OF that] by auto
  ultimately show ?thesis
    using calculateMonthlyPayment_Inr calculateMonthlyPayment_returns by blast
qed

theorem calculateMonthlyPayment_formula_witness:
  "calculateMonthlyPayment 80 500 12 = Inr 7
   \<and> unat (7 :: uint256) = (80 + 80 * 500 * 12 div (10000 * 12)) div 12
   \<and> (\<exists>s'. applyForMortgage 2 20 0 0 12 True (system_example 100) = Inr s'
         \<and> loanAmount (mortgages (manager s') 0) = 80
         \<and> interestRateBPS (mortgages (manager s') 0) = 500
         \<and> monthlyPayment (mortgages (manager s') 0) = 7)"
  using calculateMonthlyPayment_formula [of 12 80 500]
  by (simp add: manager_defs registry_defs pool_defs checked_defs)

section \<open>Down payment\<close>

lemma applyForMortgage_down:
  assumes "applyForMortgage sender v t pid months ok s = Inr s'"
  shows "unat (valueUSD (properties (propertyNFT s) pid)) * 1000 div 10000
           \<le> unat (downPayment (mortgages (manager s') pid))
    \<and> unat (loanAmount (mortgages (manager s') pid))
        + unat (downPayment (mortgages (manager s') pid))
        = unat (propertyValue (mortgages (manager s') pid))
    \<and> downPayment (mortgages (manager s') pid) = v
    \<and> propertyValue (mortgages (manager s') pid) = valueUSD (properties (propertyNFT s) pid)
    \<and> status (mortgages (manager s') pid) = Active"
proof -
  from applyForMortgage_mortgage [OF assms] obtain loan monthly own
    where m: "unat (valueUSD (properties (propertyNFT s) pid)) * 1000 < uint256_limit"
      and d: "valueUSD (properties (propertyNFT s) pid) * 1000 div BASIS_POINTS \<le> v"
      and l: "checked_sub (valueUSD (properties (propertyNFT s) pid)) v = Inr loan"
      and r: "mortgages (manager s') pid =
       \<lparr>propertyId = pid, borrower = sender,
        propertyValue = valueUSD (properties (propertyNFT s) pid), downPayment = v,
        loanAmount = loan, interestRateBPS = defaultInterestRateBPS (manager s),
        durationMonths = months, monthlyPayment = monthly, startTimestamp = t,
        lastPaymentTimestamp = t, totalPaid = v, ownershipSharesBPS = own,
        paymentsCount = 0, status = Active\<rparr>"
    by blast
  have "unat (valueUSD (properties (propertyNFT s) pid) * 1000) =
          unat (valueUSD (properties (propertyNFT s) pid)) * 1000"
    using m by (simp add: unat_checked)
  then have "unat (valueUSD (properties (propertyNFT s) pid)) * 1000 div 10000 \<le> unat v"
    using d by (simp add: word_le_nat_alt unat_div unat_BASIS_POINTS)
  moreover have "unat loan + unat v = unat (valueUSD (properties (propertyNFT s) pid))"
    using l by (auto simp: checked_sub_Inr unat_checked)
  ultimately show ?thesis
    by (simp add: r)
qed

lemma applyForMortgage_low_down:
  assumes "owners (propertyNFT s) pid \<noteq> 0"
    and "isListed (properties (propertyNFT s) pid)"
    and "status (mortgages (manager s) pid) = NoneStatus"
    and "unat (valueUSD (properties (propertyNFT s) pid)) * 1000 < uint256_limit"
    and "unat v < unat (valueUSD (properties (propertyNFT s) pid)) * 1000 div 10000"
  shows "applyForMortgage sender v t pid months ok s
           = Inl (Revert ''Insufficient down payment (min 10%)'')"
proof -
  have "unat (valueUSD (properties (propertyNFT s) pid) * 1000) =
          unat (valueUSD (properties (propertyNFT s) pid)) * 1000"
    using assms(4) by (simp add: unat_checked)
  then have "\<not> valueUSD (properties (propertyNFT s) pid) * 1000 div BASIS_POINTS \<le> v"
    using assms(5) by (simp add: word_le_nat_alt unat_div unat_BASIS_POINTS)
  then show ?thesis
    using assms(1-4)
    by (simp add: applyForMortgage_def getProperty_def require_def checked_mul_def
        checked_div_def BASIS_POINTS_def)
qed

text \<open>
  C5 (as amended). An accepted application records the down payment \<open>msg.value\<close> and the
  asset's value, with \<open>floor(value * 1000 / 10000) \<le> downPayment\<close> and
  \<open>loanAmount + downPayment = propertyValue\<close>. An application with a down payment below
  that floor is never accepted, and when the asset exists, is listed and has no loan
  record, it reverts with "Insufficient down payment (min 10%)".
\<close>

theorem applyForMortgage_down_payment:
  "(\<forall>s'. applyForMortgage sender v t pid months ok s = Inr s' \<longrightarrow>
        unat (valueUSD (properties (propertyNFT s) pid)) * 1000 div 10000
           \<le> unat (downPayment (mortgages (manager s') pid))
      \<and> unat (loanAmount (mortgages (manager s') pid))
          + unat (downPayment (mortgages (manager s') pid))
          = unat (propertyValue (mortgages (manager s') pid))
      \<and> downPayment (mortgages (manager s') pid) = v
      \<and> propertyValue (mortgages (manager s') pid)
          = valueUSD (properties (propertyNFT s) pid)
      \<and> status (mortgages (manager s') pid) = Active)
   \<and> (unat v < unat (valueUSD (properties (propertyNFT s) pid)) * 1000 div 10000 \<longrightarrow>
        (\<exists>e. applyForMortgage sender v t pid months ok s = Inl e))
   \<and> (owners (propertyNFT s) pid \<noteq> 0
        \<and> isListed (properties (propertyNFT s) pid)
        \<and> status (mortgages (manager s) pid) = NoneStatus
        \<and> unat (valueUSD (properties (propertyNFT s) pid)) * 1000 < uint256_limit
        \<and> unat v < unat (valueUSD (properties (propertyNFT s) pid)) * 1000 div 10000 \<longrightarrow>
        applyForMortgage sender v t pid months ok s
          = Inl (Revert ''Insufficient down payment (min 10%)''))"
proof (intro conjI allI impI)
  fix s'
  assume a: "applyForMortgage sender v t pid months ok s = Inr s'"
  note d = applyForMortgage_down [OF a]
  from d show "unat (valueUSD (properties (propertyNFT s) pid)) * 1000 div 10000
           \<le> unat (downPayment (mortgages (manager s') pid))" by blast
  from d show "unat (loanAmount (mortgages (manager s') pid))
          + unat (downPayment (mortgages (manager s') pid))
          = unat (propertyValue (mortgages (manager s') pid))" by blast
  from d show "downPayment (mortgages (manager s') pid) = v" by blast
  from d show "propertyValue (mortgages (manager s') pid)
          = valueUSD (properties (propertyNFT s) pid)" by blast
  from d show "status (mortgages (manager s') pid) = Active" by blast
next
  assume low: "unat v < unat (valueUSD (properties (propertyNFT s) pid)) * 1000 div 10000"
  show "\<exists>e. applyForMortgage sender v t pid months ok s = Inl e"
  proof (cases "applyForMortgage sender v t pid months ok s")
    case (Inl e)
    then show ?thesis by blast
  next
    case (Inr s')
    from applyForMortgage_down [OF Inr]
    have "unat (valueUSD (properties (propertyNFT s) pid)) * 1000 div 10000 \<le> unat v"
      by auto
    with low show ?thesis by simp
  qed
next
  assume "owners (propertyNFT s) pid \<noteq> 0
        \<and> isListed (properties (propertyNFT s) pid)
        \<and> status (mortgages (manager s) pid) = NoneStatus
        \<and> unat (valueUSD (properties (propertyNFT s) pid)) * 1000 < uint256_limit
        \<and> unat v < unat (valueUSD (properties (propertyNFT s) pid)) * 1000 div 10000"
  then show "applyForMortgage sender v t pid months ok s
          = Inl (Revert ''Insufficient down payment (min 10%)'')"
    by (intro applyForMortgage_low_down) simp_all
qed

lemma system_example_registry:
  "owners (propertyNFT (system_example d)) 0 = 9"
  "owners (propertyNFT (system_example d)) 1 = 9"
  "isListed (properties (propertyNFT (system_example d)) 0)"
  "isListed (properties (propertyNFT (system_example d)) 1)"
  "valueUSD (properties (propertyNFT (system_example d)) 0) = 100"
  "valueUSD (properties (propertyNFT (system_example d)) 1) = 105"
  "status (mortgages (manager (system_example d)) 0) = NoneStatus"
  "status (mortgages (manager (system_example d)) 1) = NoneStatus"
  by (simp_all add: system_example_def registry_example_def listed_property_def
      newMortgageManager_def emptyMortgage_def)

lemma apply_105:
  "\<exists>s'. applyForMortgage 2 10 0 1 12 True (system_example 100) = Inr s'"
  by (simp add: manager_defs registry_defs pool_defs checked_defs)

theorem applyForMortgage_down_payment_witness:
  "(\<exists>s'. applyForMortgage 2 10 0 1 12 True (system_example 100) = Inr s'
        \<and> unat (downPayment (mortgages (manager s') 1)) = 10
        \<and> unat (loanAmount (mortgages (manager s') 1)) + 10 = 105
        \<and> status (mortgages (manager s') 1) = Active)
   \<and> applyForMortgage 2 9 0 1 12 True (system_example 100)
        = Inl (Revert ''Insufficient down payment (min 10%)'')"
  using applyForMortgage_down_payment [of 2 10 0 1 12 True "system_example 100"]
    applyForMortgage_down_payment [of 2 9 0 1 12 True "system_example 100"] apply_105
  by (auto simp: system_example_registry uint256_limit_def)

text \<open>
  The floor makes the bound weaker than a tenth of the value: on the asset worth 105 a
  down payment of 10 is accepted, although \<open>10 * 10 < 105\<close>.
\<close>

theorem down_payment_counterexample:
  "status (mortgages (manager (commit (system_example 100)
       (applyForMortgage 2 10 0 1 12 True (system_example 100)))) 1) = Active
   \<and> unat (downPayment (mortgages (manager (commit (system_example 100)
       (applyForMortgage 2 10 0 1 12 True (system_example 100)))) 1)) * 10
       < unat (propertyValue (mortgages (manager (commit (system_example 100)
       (applyForMortgage 2 10 0 1 12 True (system_example 100)))) 1))"
  by (simp add: manager_defs registry_defs pool_defs checked_defs)

section \<open>A second application\<close>

lemmas default_defs = checkDefault_def handleDefault_def foreclose_def remainingBalance_def
  DEFAULT_PERIOD_def

text \<open>
  C9 (as amended). An application on an asset whose loan record has any status other
  than \<open>None\<close> always reverts and leaves every contract unchanged. The registry checks
  come first: the revert is "Property does not exist" for an unminted token, "Property
  not listed" for an unlisted asset (an accepted application leaves the asset unlisted),
  and "Property already mortgaged" only when the asset is listed.
\<close>

theorem applyForMortgage_second:
  assumes "status (mortgages (manager s) pid) \<noteq> NoneStatus"
  shows "applyForMortgage sender v t pid months ok s =
           (if owners (propertyNFT s) pid = 0 then Inl (Revert ''Property does not exist'')
            else if \<not> isListed (properties (propertyNFT s) pid)
              then Inl (Revert ''Property not listed'')
            else Inl (Revert ''Property already mortgaged''))
    \<and> commit s (applyForMortgage sender v t pid months ok s) = s"
  using assms
  by (simp add: applyForMortgage_def getProperty_def require_def commit_def)

lemma loan_example_manager:
  "totalActiveMortgages (manager (loan_example 100)) = 1"
  by (simp add: loan_example_def manager_defs registry_defs pool_defs checked_defs)

lemma foreclosed_example_fields:
  "status (mortgages (manager foreclosed_example) 0) = Foreclosed"
  "owners (propertyNFT foreclosed_example) 0 = 9"
  "isListed (properties (propertyNFT foreclosed_example) 0)"
  by (simp_all add: foreclosed_example_def default_defs loan_example_mortgage
      loan_example_pool loan_example_registry loan_example_manager registry_defs pool_defs checked_defs Let_def)

theorem applyForMortgage_second_witness:
  "status (mortgages (manager foreclosed_example) 0) \<noteq> NoneStatus
   \<and> applyForMortgage 3 20 (90 * 86400 + 2) 0 12 True foreclosed_example
       = Inl (Revert ''Property already mortgaged'')
   \<and> commit foreclosed_example
        (applyForMortgage 3 20 (90 * 86400 + 2) 0 12 True foreclosed_example)
       = foreclosed_example"
  using applyForMortgage_second [of foreclosed_example 0 3 20 "90 * 86400 + 2" 12 True]
  by (simp add: foreclosed_example_fields commit_def)

text \<open>
  Activation unlists the asset, so a second application on the \<open>Active\<close> loan of the
  example reverts with "Property not listed", not with the status conflict.
\<close>

theorem second_application_counterexample:
  "status (mortgages (manager (loan_example 100)) 0) = Active
   \<and> applyForMortgage 3 20 1 0 12 True (loan_example 100)
       = Inl (Revert ''Property not listed'')
   \<and> applyForMortgage 3 20 1 0 12 True (loan_example 100)
       \<noteq> Inl (Revert ''Property already mortgaged'')"
  by (simp add: applyForMortgage_def getProperty_def require_def loan_example_mortgage
      loan_example_registry)

section \<open>Payments\<close>

lemma completeMortgage_Inr:
  assumes "completeMortgage pid s = Inr s'"
  shows "mortgages (manager s') pid =
           (mortgages (manager s) pid)\<lparr>status := PaidOff, ownershipSharesBPS := BASIS_POINTS\<rparr>"
    and "mortgagePool s' = mortgagePool s"
  using assms by (auto simp: completeMortgage_def Let_def ebind_Inr)

lemma makePayment_Inr:
  assumes "makePayment sender v t pid s = Inr s'"
  obtains expected interest princ where
      "status (mortgages (manager s) pid) = Active"
    and "sender = borrower (mortgages (manager s) pid)"
    and "expectedPayment (mortgages (manager s) pid) t = Inr expected"
    and "expected \<le> v"
    and "interestPayment (mortgages (manager s) pid) = Inr interest"
    and "checked_sub expected interest = Inr princ"
    and "unat (totalPaid (mortgages (manager s) pid)) + unat v < uint256_limit"
    and "unat (paymentsCount (mortgages (manager s) pid)) + 1 < uint256_limit"
    and "unat (totalPaid (mortgages (manager s) pid) + v) * 10000 < uint256_limit"
    and "propertyValue (mortgages (manager s) pid) \<noteq> 0"
    and "receiveMortgagePayment (this s) v princ interest (mortgagePool s)
           = Inr (mortgagePool s')"
    and "mortgages (manager s') pid =
        (if BASIS_POINTS \<le> capped_share (mortgages (manager s) pid) v
            \<or> durationMonths (mortgages (manager s) pid)
                 \<le> paymentsCount (mortgages (manager s) pid) + 1
         then (mortgages (manager s) pid)
                \<lparr>totalPaid := totalPaid (mortgages (manager s) pid) + v,
                 lastPaymentTimestamp := t,
                 paymentsCount := paymentsCount (mortgages (manager s) pid) + 1,
                 ownershipSharesBPS := BASIS_POINTS, status := PaidOff\<rparr>
         else (mortgages (manager s) pid)
                \<lparr>totalPaid := totalPaid (mortgages (manager s) pid) + v,
                 lastPaymentTimestamp := t,
                 paymentsCount := paymentsCount (mortgages (manager s) pid) + 1,
                 ownershipSharesBPS := capped_share (mortgages (manager s) pid) v\<rparr>)"
proof -
  define m where "m = mortgages (manager s) pid"
  define S where "S = (\<lambda>pool'. s\<lparr>mortgagePool := pool',
       manager := (manager s)
         \<lparr>mortgages := (mortgages (manager s))
            (pid := m\<lparr>totalPaid := totalPaid m + v, lastPaymentTimestamp := t,
                      paymentsCount := paymentsCount m + 1,
                      ownershipSharesBPS := capped_share m v\<rparr>),
          managerEvents := managerEvents (manager s)
            @ [PaymentReceived pid sender v (capped_share m v)]\<rparr>\<rparr>)"
  from assms obtain expected interest princ pool' where
        a: "status m = Active" "sender = borrower m"
      "expectedPayment m t = Inr expected" "expected \<le> v"
      "interestPayment m = Inr interest" "checked_sub expected interest = Inr princ"
    and b: "unat (totalPaid m) + unat v < uint256_limit"
      "unat (paymentsCount m) + unat (1 :: uint256) < uint256_limit"
      "unat (totalPaid m + v) * unat BASIS_POINTS < uint256_limit"
      "unat (propertyValue m) \<noteq> 0"
    and c: "receiveMortgagePayment (this s) v princ interest (mortgagePool s) = Inr pool'"
    and d: "(if BASIS_POINTS \<le> capped_share m v \<or> durationMonths m \<le> paymentsCount m + 1
         then completeMortgage pid (S pool') else Inr (S pool')) = Inr s'"
    unfolding makePayment_def Let_def m_def S_def capped_share_def paid_share_def
    apply (elim ebind_InrE)
    apply (simp only: require_Inr checked_add_Inr checked_mul_Inr checked_div_Inr)
    apply blast
    done
  have e: "mortgagePool s' = pool'"
    using d by (auto simp: S_def split: if_splits dest: completeMortgage_Inr(2))
  have f: "mortgages (manager s') pid =
        (if BASIS_POINTS \<le> capped_share m v \<or> durationMonths m \<le> paymentsCount m + 1
         then m\<lparr>totalPaid := totalPaid m + v, lastPaymentTimestamp := t,
                paymentsCount := paymentsCount m + 1,
                ownershipSharesBPS := BASIS_POINTS, status := PaidOff\<rparr>
         else m\<lparr>totalPaid := totalPaid m + v, lastPaymentTimestamp := t,
                paymentsCount := paymentsCount m + 1,
                ownershipSharesBPS := capped_share m v\<rparr>)"
  proof (cases "BASIS_POINTS \<le> capped_share m v \<or> durationMonths m \<le> paymentsCount m + 1")
    case True
    with d have "completeMortgage pid (S pool') = Inr s'" by simp
    from completeMortgage_Inr(1) [OF this] True show ?thesis
      by (simp add: S_def)
  next
    case False
    with d have "s' = S pool'" by simp
    with False show ?thesis by (simp add: S_def)
  qed
  show ?thesis
    using a b c e f
    by (intro that [of expected interest princ])
      (simp_all add: m_def unat_BASIS_POINTS unat_eq_0)
qed

lemma unat_remainingBalance:
  assumes "remainingBalance m = Inr r"
  shows "unat r = unat (loanAmount m) - (unat (totalPaid m) - unat (downPayment m))"
  using assms
  by (auto simp: remainingBalance_def ebind_Inr checked_sub_Inr unat_checked)

lemma unat_interestPayment:
  assumes "interestPayment m = Inr i"
  shows "unat i = (unat (loanAmount m) - (unat (totalPaid m) - unat (downPayment m)))
                    * (unat (interestRateBPS m) div 12) div 10000"
proof -
  from assms obtain r where r: "remainingBalance m = Inr r"
    and o: "unat r * unat (interestRateBPS m div 12) < uint256_limit"
    and i: "i = r * (interestRateBPS m div 12) div BASIS_POINTS"
    by (auto simp: interestPayment_def ebind_Inr checked_mul_Inr checked_div_Inr)
  have "unat (r * (interestRateBPS m div 12)) = unat r * (unat (interestRateBPS m) div 12)"
    using o by (simp add: unat_checked)
  then show ?thesis
    by (simp add: i unat_div unat_BASIS_POINTS unat_remainingBalance [OF r])
qed

lemma makePayment_value:
  assumes "makePayment sender v t pid s = Inr s'"
  shows "expectedPayment (mortgages (manager s) pid) t = Inr v"
proof -
  from assms obtain expected interest princ where
      e: "expectedPayment (mortgages (manager s) pid) t = Inr expected"
    and p: "checked_sub expected interest = Inr princ"
    and r: "receiveMortgagePayment (this s) v princ interest (mortgagePool s)
              = Inr (mortgagePool s')"
    by (rule makePayment_Inr)
  from p have "unat princ = unat expected - unat interest" "unat interest \<le> unat expected"
    by (auto simp: checked_sub_Inr unat_checked)
  moreover from r have "unat v = unat princ + unat interest"
    by (auto simp: receiveMortgagePayment_def ebind_Inr require_Inr checked_Inr unat_checked)
  ultimately have "unat v = unat expected" by simp
  then have "v = expected" by (simp add: word_unat_eq_iff)
  with e show ?thesis by simp
qed

lemma makePayment_mismatch:
  assumes "status (mortgages (manager s) pid) = Active"
    and "sender = borrower (mortgages (manager s) pid)"
    and "expectedPayment (mortgages (manager s) pid) t = Inr expected"
    and "expected < v"
    and "interestPayment (mortgages (manager s) pid) = Inr interest"
    and "interest \<le> expected"
    and "unat (totalPaid (mortgages (manager s) pid)) + unat v < uint256_limit"
    and "unat (paymentsCount (mortgages (manager s) pid)) + 1 < uint256_limit"
    and "unat (totalPaid (mortgages (manager s) pid) + v) * 10000 < uint256_limit"
    and "propertyValue (mortgages (manager s) pid) \<noteq> 0"
    and "authorizedBorrowers (mortgagePool s) (this s)"
  shows "makePayment sender v t pid s = Inl (Revert ''Payment amount mismatch'')"
proof -
  have "unat (expected - interest) + unat interest = unat expected"
    using assms(6) by (simp add: unat_checked word_le_nat_alt)
  then have "unat (expected - interest) + unat interest < uint256_limit"
    using unat_lt_limit [of expected] by simp
  moreover have "v \<noteq> expected"
    using assms(4) by auto
  ultimately have "receiveMortgagePayment (this s) v (expected - interest) interest
          (mortgagePool s) = Inl (Revert ''Payment amount mismatch'')"
    using assms(11)
    by (simp add: receiveMortgagePayment_def require_def checked_add_def)
  then show ?thesis
    using assms(1-10)
    by (simp add: makePayment_def Let_def require_def checked_add_def checked_sub_def
        checked_mul_def checked_div_def unat_BASIS_POINTS)
qed

text \<open>
  C10. A payment returns only when \<open>msg.value\<close> equals the expected payment (the monthly
  payment, plus the late fee when it applies). On an \<open>Active\<close> loan a payment of more
  than the expected payment always reverts and leaves every contract unchanged; when
  nothing else stops the call, the revert is the pool's "Payment amount mismatch", since
  the principal and interest handed to the pool sum to the expected payment while the
  whole of \<open>msg.value\<close> is forwarded.
\<close>

theorem makePayment_exact:
  "(\<forall>s'. makePayment sender v t pid s = Inr s' \<longrightarrow>
        expectedPayment (mortgages (manager s) pid) t = Inr v)
   \<and> (\<forall>expected. status (mortgages (manager s) pid) = Active
        \<and> expectedPayment (mortgages (manager s) pid) t = Inr expected \<and> expected < v \<longrightarrow>
        (\<exists>e. makePayment sender v t pid s = Inl e)
        \<and> commit s (makePayment sender v t pid s) = s)
   \<and> (\<forall>expected interest. status (mortgages (manager s) pid) = Active
        \<and> sender = borrower (mortgages (manager s) pid)
        \<and> expectedPayment (mortgages (manager s) pid) t = Inr expected \<and> expected < v
        \<and> interestPayment (mortgages (manager s) pid) = Inr interest
        \<and> interest \<le> expected
        \<and> unat (totalPaid (mortgages (manager s) pid)) + unat v < uint256_limit
        \<and> unat (paymentsCount (mortgages (manager s) pid)) + 1 < uint256_limit
        \<and> unat (totalPaid (mortgages (manager s) pid) + v) * 10000 < uint256_limit
        \<and> propertyValue (mortgages (manager s) pid) \<noteq> 0
        \<and> authorizedBorrowers (mortgagePool s) (this s) \<longrightarrow>
        makePayment sender v t pid s = Inl (Revert ''Payment amount mismatch''))"
proof (intro conjI allI impI)
  fix s'
  assume "makePayment sender v t pid s = Inr s'"
  then show "expectedPayment (mortgages (manager s) pid) t = Inr v"
    by (rule makePayment_value)
next
  fix expected
  assume a: "status (mortgages (manager s) pid) = Active
        \<and> expectedPayment (mortgages (manager s) pid) t = Inr expected \<and> expected < v"
  show "\<exists>e. makePayment sender v t pid s = Inl e"
  proof (cases "makePayment sender v t pid s")
    case (Inl e)
    then show ?thesis by blast
  next
    case (Inr s')
    from makePayment_value [OF Inr] a show ?thesis by simp
  qed
  then show "commit s (makePayment sender v t pid s) = s"
    by (auto simp: commit_def)
next
  fix expected interest
  assume "status (mortgages (manager s) pid) = Active
        \<and> sender = borrower (mortgages (manager s) pid)
        \<and> expectedPayment (mortgages (manager s) pid) t = Inr expected \<and> expected < v
        \<and> interestPayment (mortgages (manager s) pid) = Inr interest
        \<and> interest \<le> expected
        \<and> unat (totalPaid (mortgages (manager s) pid)) + unat v < uint256_limit
        \<and> unat (paymentsCount (mortgages (manager s) pid)) + 1 < uint256_limit
        \<and> unat (totalPaid (mortgages (manager s) pid) + v) * 10000 < uint256_limit
        \<and> propertyValue (mortgages (manager s) pid) \<noteq> 0
        \<and> authorizedBorrowers (mortgagePool s) (this s)"
  then show "makePayment sender v t pid s = Inl (Revert ''Payment amount mismatch'')"
    by (intro makePayment_mismatch [of s pid sender t expected v interest]) simp_all
qed

lemmas payment_defs = expectedPayment_def interestPayment_def remainingBalance_def
  SECONDS_PER_MONTH_def GRACE_PERIOD_def LATE_FEE_BPS_def

lemma receiveMortgagePayment_Inr:
  assumes "receiveMortgagePayment sender v pr i p = Inr p'"
  shows "authorizedBorrowers p sender"
    and "unat v = unat pr + unat i"
    and "unat (activeMortgages p') = unat (activeMortgages p) - unat pr"
    and "unat pr \<le> unat (activeMortgages p)"
    and "unat (totalLiquidity p') = unat (totalLiquidity p) + unat v"
    and "unat (totalInterestEarned p') = unat (totalInterestEarned p) + unat i"
    and "poolEvents p' = poolEvents p @ [MortgageRepayment pr i]"
    and "insuranceReserve p' = insuranceReserve p"
  using assms
  by (auto simp: receiveMortgagePayment_def ebind_Inr require_Inr checked_Inr unat_checked)

lemma pay_example: "\<exists>s'. makePayment 2 7 100 0 (loan_example 100) = Inr s'"
  by (simp add: makePayment_def Let_def payment_defs loan_example_mortgage
      loan_example_pool loan_example_registry loan_example_manager
      receiveMortgagePayment_def
      completeMortgage_def checked_defs BASIS_POINTS_def)

theorem makePayment_exact_witness:
  "status (mortgages (manager (loan_example 100)) 0) = Active
   \<and> expectedPayment (mortgages (manager (loan_example 100)) 0) 100 = Inr 7
   \<and> makePayment 2 8 100 0 (loan_example 100) = Inl (Revert ''Payment amount mismatch'')
   \<and> commit (loan_example 100) (makePayment 2 8 100 0 (loan_example 100)) = loan_example 100
   \<and> (\<exists>s'. makePayment 2 7 100 0 (loan_example 100) = Inr s')"
  using makePayment_exact [of 2 8 100 0 "loan_example 100"]
    makePayment_exact [of 2 7 100 0 "loan_example 100"] pay_example
  by (simp add: payment_defs loan_example_mortgage loan_example_pool
      loan_example_registry checked_defs BASIS_POINTS_def commit_def)

text \<open>
  C2. A payment that returns was made on an \<open>Active\<close> loan by its borrower with
  \<open>msg.value\<close> equal to the expected payment. The pool's \<open>receiveMortgagePayment\<close> is
  called with \<open>msg.value\<close> and the split \<open>(principal, interest)\<close>, and emits
  \<open>MortgageRepayment(principal, interest)\<close>, where the interest is
  \<open>outstanding * (interestRateBPS / 12) / 10000\<close> on the outstanding balance
  \<open>loanAmount - (totalPaid - downPayment)\<close> before the payment, and the principal is
  \<open>msg.value - interest\<close>.
\<close>

theorem makePayment_split:
  assumes "makePayment sender v t pid s = Inr s'"
  shows "\<exists>princ interest.
      status (mortgages (manager s) pid) = Active
    \<and> sender = borrower (mortgages (manager s) pid)
    \<and> expectedPayment (mortgages (manager s) pid) t = Inr v
    \<and> unat interest
        = (unat (loanAmount (mortgages (manager s) pid))
            - (unat (totalPaid (mortgages (manager s) pid))
                - unat (downPayment (mortgages (manager s) pid))))
          * (unat (interestRateBPS (mortgages (manager s) pid)) div 12) div 10000
    \<and> unat interest \<le> unat v
    \<and> unat princ = unat v - unat interest
    \<and> receiveMortgagePayment (this s) v princ interest (mortgagePool s)
        = Inr (mortgagePool s')
    \<and> poolEvents (mortgagePool s')
        = poolEvents (mortgagePool s) @ [MortgageRepayment princ interest]
    \<and> unat (activeMortgages (mortgagePool s'))
        = unat (activeMortgages (mortgagePool s)) - unat princ
    \<and> unat (totalLiquidity (mortgagePool s'))
        = unat (totalLiquidity (mortgagePool s)) + unat v
    \<and> unat (totalInterestEarned (mortgagePool s'))
        = unat (totalInterestEarned (mortgagePool s)) + unat interest"
proof -
  from assms obtain expected interest princ where
      a: "status (mortgages (manager s) pid) = Active"
         "sender = borrower (mortgages (manager s) pid)"
    and i: "interestPayment (mortgages (manager s) pid) = Inr interest"
    and r: "receiveMortgagePayment (this s) v princ interest (mortgagePool s)
              = Inr (mortgagePool s')"
    by (rule makePayment_Inr)
  note p = receiveMortgagePayment_Inr [OF r]
  from p(2) have "unat interest \<le> unat v" "unat princ = unat v - unat interest"
    by simp_all
  with a makePayment_value [OF assms] unat_interestPayment [OF i] r p(3,5,6,7)
  show ?thesis by blast
qed

theorem makePayment_split_witness:
  "\<exists>s' princ interest. makePayment 2 7 100 0 (loan_example 100) = Inr s'
     \<and> poolEvents (mortgagePool s')
         = poolEvents (mortgagePool (loan_example 100)) @ [MortgageRepayment princ interest]
     \<and> unat interest = (80 - (20 - 20)) * (500 div 12) div 10000
     \<and> unat princ = 7 - unat interest
     \<and> unat (activeMortgages (mortgagePool s')) = 80 - unat princ
     \<and> unat (totalLiquidity (mortgagePool s')) = 107"
proof -
  from pay_example obtain s' where s': "makePayment 2 7 100 0 (loan_example 100) = Inr s'"
    by blast
  from makePayment_split [OF s'] s' show ?thesis
    by (simp add: loan_example_mortgage loan_example_pool) blast
qed

section \<open>Ownership share\<close>

lemma unat_capped_share:
  assumes "unat (totalPaid m) + unat v < uint256_limit"
    and "unat (totalPaid m + v) * 10000 < uint256_limit"
  shows "unat (capped_share m v)
           = min 10000 ((unat (totalPaid m) + unat v) * 10000 div unat (propertyValue m))"
proof -
  have s: "unat (totalPaid m + v) = unat (totalPaid m) + unat v"
    using assms(1) by (simp add: unat_checked)
  have "unat ((totalPaid m + v) * BASIS_POINTS) = unat (totalPaid m + v) * 10000"
    using assms(2) by (simp add: unat_checked unat_BASIS_POINTS)
  then have "unat (paid_share m v)
               = (unat (totalPaid m) + unat v) * 10000 div unat (propertyValue m)"
    by (simp add: paid_share_def unat_div s)
  then show ?thesis
    by (simp add: capped_share_def word_less_nat_alt unat_BASIS_POINTS min_def)
qed

lemma ownership_of_mono:
  assumes "propertyValue m' = propertyValue m"
    and "unat (totalPaid m) \<le> unat (totalPaid m')"
  shows "ownership_of m \<le> ownership_of m'"
  unfolding ownership_of_def assms(1)
  by (intro min.mono order_refl div_le_mono mult_le_mono1 assms(2))

lemma ownership_of_le: "ownership_of m \<le> 10000"
  by (simp add: ownership_of_def)

lemma makePayment_ownership:
  assumes "makePayment sender v t pid s = Inr s'"
  shows "status (mortgages (manager s') pid) = Active
          \<or> status (mortgages (manager s') pid) = PaidOff"
    and "status (mortgages (manager s') pid) = Active \<Longrightarrow>
           unat (ownershipSharesBPS (mortgages (manager s') pid))
             = ownership_of (mortgages (manager s') pid)"
    and "status (mortgages (manager s') pid) = PaidOff \<Longrightarrow>
           unat (ownershipSharesBPS (mortgages (manager s') pid)) = 10000"
    and "ownership_of (mortgages (manager s) pid)
           \<le> unat (ownershipSharesBPS (mortgages (manager s') pid))"
    and "unat (ownershipSharesBPS (mortgages (manager s') pid)) \<le> 10000"
proof -
  define m where "m = mortgages (manager s) pid"
  define m' where "m' = mortgages (manager s') pid"
  from assms obtain
      a: "status m = Active"
    and o: "unat (totalPaid m) + unat v < uint256_limit"
           "unat (totalPaid m + v) * 10000 < uint256_limit"
    and r: "m' =
        (if BASIS_POINTS \<le> capped_share m v \<or> durationMonths m \<le> paymentsCount m + 1
         then m\<lparr>totalPaid := totalPaid m + v, lastPaymentTimestamp := t,
                paymentsCount := paymentsCount m + 1,
                ownershipSharesBPS := BASIS_POINTS, status := PaidOff\<rparr>
         else m\<lparr>totalPaid := totalPaid m + v, lastPaymentTimestamp := t,
                paymentsCount := paymentsCount m + 1,
                ownershipSharesBPS := capped_share m v\<rparr>)"
    unfolding m_def m'_def by (rule makePayment_Inr)
  have tp: "unat (totalPaid m') = unat (totalPaid m) + unat v"
    and pv: "propertyValue m' = propertyValue m"
    using o(1) by (simp_all add: r unat_checked)
  have c: "unat (capped_share m v) = ownership_of m'"
    by (simp add: unat_capped_share [OF o] ownership_of_def tp pv)
  have mono: "ownership_of m \<le> ownership_of m'"
    using pv tp by (intro ownership_of_mono) simp_all
  define complete where
    "complete \<longleftrightarrow> BASIS_POINTS \<le> capped_share m v \<or> durationMonths m \<le> paymentsCount m + 1"
  have own: "unat (ownershipSharesBPS m') = (if complete then 10000 else ownership_of m')"
    using c by (simp add: r complete_def unat_BASIS_POINTS)
  have st: "status m' = (if complete then PaidOff else Active)"
    using a by (simp add: r complete_def)
  show "status m' = Active \<or> status m' = PaidOff"
    by (simp add: st)
  show "unat (ownershipSharesBPS m') = ownership_of m'" if "status m' = Active"
    using that by (simp add: own st split: if_splits)
  show "unat (ownershipSharesBPS m') = 10000" if "status m' = PaidOff"
    using that by (simp add: own st split: if_splits)
  show "ownership_of m \<le> unat (ownershipSharesBPS m')"
    using mono ownership_of_le [of m] by (simp add: own)
  show "unat (ownershipSharesBPS m') \<le> 10000"
    using ownership_of_le [of m'] by (simp add: own)
qed

lemma makePayment_loan_inv:
  assumes "loan_inv (mortgages (manager s) pid)"
  shows "loan_inv (mortgages (manager (commit s (makePayment sender v t pid s))) pid)
    \<and> unat (ownershipSharesBPS (mortgages (manager s) pid))
        \<le> unat (ownershipSharesBPS
             (mortgages (manager (commit s (makePayment sender v t pid s))) pid))"
proof (cases "makePayment sender v t pid s")
  case (Inl e)
  with assms show ?thesis by (simp add: commit_def)
next
  case (Inr s')
  then have "status (mortgages (manager s) pid) = Active"
    by (rule makePayment_Inr)
  with assms have "unat (ownershipSharesBPS (mortgages (manager s) pid))
                     = ownership_of (mortgages (manager s) pid)"
    by (simp add: loan_inv_def)
  with makePayment_ownership [OF Inr] show ?thesis
    by (simp add: commit_def Inr loan_inv_def)
qed

lemma payment_trace_sorted:
  assumes "loan_inv (mortgages (manager s) pid)"
  shows "sorted (map unat (ownershipSharesBPS (mortgages (manager s) pid)
                             # payment_trace pid calls s))
    \<and> (\<forall>x \<in> set (payment_trace pid calls s). unat x \<le> 10000)"
  using assms
proof (induction calls arbitrary: s)
  case Nil
  show ?case by simp
next
  case (Cons c calls)
  obtain sender v t where c: "c = (sender, v, t)"
    by (cases c)
  define s1 where "s1 = commit s (makePayment sender v t pid s)"
  from makePayment_loan_inv [OF Cons.prems, of sender v t]
  have inv: "loan_inv (mortgages (manager s1) pid)"
    and le: "unat (ownershipSharesBPS (mortgages (manager s) pid))
               \<le> unat (ownershipSharesBPS (mortgages (manager s1) pid))"
    by (simp_all add: s1_def)
  from Cons.IH [OF inv]
  have ih: "sorted (map unat (ownershipSharesBPS (mortgages (manager s1) pid)
                             # payment_trace pid calls s1))"
    and bd: "\<forall>x \<in> set (payment_trace pid calls s1). unat x \<le> 10000"
    by simp_all
  have "\<forall>x \<in> set (payment_trace pid calls s1).
          unat (ownershipSharesBPS (mortgages (manager s) pid)) \<le> unat x"
    using ih le by auto
  with ih le bd inv show ?case
    by (simp add: c s1_def [symmetric] Let_def loan_inv_def)
qed

text \<open>
  C4. After a payment that returns and leaves the loan \<open>Active\<close>, \<open>ownershipSharesBPS\<close> is
  \<open>min(10000, totalPaid * 10000 / propertyValue)\<close> (a payment that completes the loan sets
  it to 10000). Starting from a loan record that satisfies this invariant, as every
  accepted application does, the shares after the successive payment transactions on the
  loan never decrease and never exceed 10000.
\<close>

theorem ownership_share_monotone:
  assumes "loan_inv (mortgages (manager s) pid)"
  shows "(\<forall>sender v t s'. makePayment sender v t pid s = Inr s'
            \<and> status (mortgages (manager s') pid) = Active \<longrightarrow>
          unat (ownershipSharesBPS (mortgages (manager s') pid))
            = min 10000 (unat (totalPaid (mortgages (manager s') pid)) * 10000
                          div unat (propertyValue (mortgages (manager s') pid))))
    \<and> sorted (map unat (ownershipSharesBPS (mortgages (manager s) pid)
                            # payment_trace pid calls s))
    \<and> (\<forall>x \<in> set (payment_trace pid calls s). unat x \<le> 10000)"
  using payment_trace_sorted [OF assms, of calls] makePayment_ownership(2)
  by (auto simp: ownership_of_def)

lemma applyForMortgage_loan_inv:
  assumes "applyForMortgage sender v t pid months ok s = Inr s'"
  shows "loan_inv (mortgages (manager s') pid)"
proof -
  define pv where "pv = valueUSD (properties (propertyNFT s) pid)"
  from applyForMortgage_mortgage [OF assms] obtain loan monthly own
    where l: "checked_sub pv v = Inr loan"
      and o: "unat v * 10000 < uint256_limit"
      and own: "own = v * BASIS_POINTS div pv"
      and r: "mortgages (manager s') pid =
       \<lparr>propertyId = pid, borrower = sender,
        propertyValue = pv, downPayment = v,
        loanAmount = loan, interestRateBPS = defaultInterestRateBPS (manager s),
        durationMonths = months, monthlyPayment = monthly, startTimestamp = t,
        lastPaymentTimestamp = t, totalPaid = v, ownershipSharesBPS = own,
        paymentsCount = 0, status = Active\<rparr>"
    unfolding pv_def by blast
  have le: "unat v \<le> unat pv"
    using l by (simp add: checked_sub_Inr)
  have u: "unat own = unat v * 10000 div unat pv"
    using o by (simp add: own unat_div unat_checked unat_BASIS_POINTS)
  have "unat v * 10000 div unat pv \<le> unat pv * 10000 div unat pv"
    using le by (intro div_le_mono mult_le_mono1)
  also have "\<dots> \<le> 10000"
    by (cases "unat pv = 0") simp_all
  finally have "unat own \<le> 10000"
    by (simp add: u)
  then show ?thesis
    by (simp add: loan_inv_def ownership_of_def r u)
qed

lemma term_not_reached: "\<not> (12 :: uint256) \<le> 1"
  by (simp add: word_le_nat_alt)

theorem ownership_share_monotone_witness:
  "loan_inv (mortgages (manager (loan_example 100)) 0)
   \<and> ownershipSharesBPS (mortgages (manager (loan_example 100)) 0) = 2000
   \<and> payment_trace 0 [(2, 7, 100), (2, 7, 200)] (loan_example 100) = [2700, 3400]
   \<and> sorted (map unat [2000, 2700, 3400 :: uint256])
   \<and> (\<exists>s'. makePayment 2 7 100 0 (loan_example 100) = Inr s'
         \<and> status (mortgages (manager s') 0) = Active
         \<and> unat (ownershipSharesBPS (mortgages (manager s') 0))
             = min 10000 (27 * 10000 div 100))"
proof -
  have inv: "loan_inv (mortgages (manager (loan_example 100)) 0)"
    by (simp add: loan_inv_def ownership_of_def loan_example_mortgage)
  have tr: "payment_trace 0 [(2, 7, 100), (2, 7, 200)] (loan_example 100) = [2700, 3400]"
    by (simp add: makePayment_def Let_def payment_defs loan_example_mortgage
      loan_example_pool loan_example_registry loan_example_manager
      receiveMortgagePayment_def completeMortgage_def checked_defs BASIS_POINTS_def
      commit_def term_not_reached)
  obtain s' where s': "makePayment 2 7 100 0 (loan_example 100) = Inr s'"
    and st: "status (mortgages (manager s') 0) = Active"
    and tp: "totalPaid (mortgages (manager s') 0) = 27"
    and pv: "propertyValue (mortgages (manager s') 0) = 100"
    by (simp add: makePayment_def Let_def payment_defs loan_example_mortgage
      loan_example_pool loan_example_registry loan_example_manager
      receiveMortgagePayment_def completeMortgage_def checked_defs BASIS_POINTS_def
      term_not_reached)
  from ownership_share_monotone [OF inv, of "[(2, 7, 100), (2, 7, 200)]"] s' st tp pv tr inv
  show ?thesis
    by (simp add: loan_example_mortgage)
qed

section \<open>Default and insurance cover\<close>

lemma foreclose_Inr:
  assumes "foreclose t pid s = Inr s'"
  shows "mortgages (manager s') pid = (mortgages (manager s) pid)\<lparr>status := Foreclosed\<rparr>"
    and "mortgagePool s' = mortgagePool s"
    and "managerEvents (manager s') = managerEvents (manager s)
           @ [PropertyForeclosed pid (borrower (mortgages (manager s) pid))]"
  using assms by (auto simp: foreclose_def Let_def ebind_Inr)

lemma coverDefault_Inr:
  assumes "coverDefault sender a p = Inr p'"
  shows "unat a \<le> unat (insuranceReserve p)"
    and "unat (insuranceReserve p') = unat (insuranceReserve p) - unat a"
    and "unat (activeMortgages p') = unat (activeMortgages p) - unat a"
    and "unat a \<le> unat (activeMortgages p)"
    and "poolEvents p' = poolEvents p @ [InsurancePayout sender a]"
    and "totalLiquidity p' = totalLiquidity p"
  using assms
  by (auto simp: coverDefault_def ebind_Inr require_Inr checked_Inr unat_checked
      word_le_nat_alt)

lemma handleDefault_Inr:
  assumes "handleDefault t pid s = Inr s'"
  obtains remaining where
      "remainingBalance (mortgages (manager s) pid) = Inr remaining"
    and "status (mortgages (manager s') pid) = Foreclosed"
    and "managerEvents (manager s') = managerEvents (manager s)
           @ [MortgageDefaulted pid (borrower (mortgages (manager s) pid)),
              PropertyForeclosed pid (borrower (mortgages (manager s) pid))]"
    and "0 < remaining \<and> remaining div 2 \<le> insuranceReserve (mortgagePool s) \<longrightarrow>
           coverDefault (this s) (remaining div 2) (mortgagePool s) = Inr (mortgagePool s')"
    and "\<not> (0 < remaining \<and> remaining div 2 \<le> insuranceReserve (mortgagePool s)) \<longrightarrow>
           mortgagePool s' = mortgagePool s"
proof -
  define m where "m = mortgages (manager s) pid"
  define S where "S = (\<lambda>count' pool'. s\<lparr>mortgagePool := pool',
           manager := (manager s)
             \<lparr>mortgages := (mortgages (manager s))(pid := m\<lparr>status := Defaulted\<rparr>),
              totalActiveMortgages := count',
              managerEvents := managerEvents (manager s)
                @ [MortgageDefaulted pid (borrower m)]\<rparr>\<rparr>)"
  from assms obtain count' remaining pool' where
      r: "remainingBalance m = Inr remaining"
    and p: "(if remaining > 0 then
               ebind (checked_div remaining 2) (\<lambda>insuranceCoverage.
               if insuranceCoverage \<le> insuranceReserve (mortgagePool s)
               then coverDefault (this s) insuranceCoverage (mortgagePool s)
               else Inr (mortgagePool s))
             else Inr (mortgagePool s)) = Inr pool'"
    and f: "foreclose t pid (S count' pool') = Inr s'"
    unfolding handleDefault_def Let_def m_def S_def
    apply (elim ebind_InrE)
    apply blast
    done
  note fc = foreclose_Inr [OF f]
  have pool: "mortgagePool s' = pool'"
    using fc(2) by (simp add: S_def)
  have c: "coverDefault (this s) (remaining div 2) (mortgagePool s) = Inr (mortgagePool s')"
    if "0 < remaining \<and> remaining div 2 \<le> insuranceReserve (mortgagePool s)"
    using p that by (simp add: pool checked_div_def)
  have k: "mortgagePool s' = mortgagePool s"
    if "\<not> (0 < remaining \<and> remaining div 2 \<le> insuranceReserve (mortgagePool s))"
    using p that by (auto simp: pool checked_div_def split: if_splits)
  have st: "status (mortgages (manager s') pid) = Foreclosed"
    using fc(1) by simp
  have ev: "managerEvents (manager s') = managerEvents (manager s)
           @ [MortgageDefaulted pid (borrower m), PropertyForeclosed pid (borrower m)]"
    using fc(3) by (simp add: S_def)
  show ?thesis
    using r st ev c k unfolding m_def by (intro that) blast+
qed

lemma unat_DEFAULT_PERIOD: "unat DEFAULT_PERIOD = 7776000"
  by (simp add: DEFAULT_PERIOD_def)

lemma checkDefault_Inr:
  assumes "checkDefault t pid s = Inr s'"
  shows "status (mortgages (manager s) pid) = Active"
    and "unat (lastPaymentTimestamp (mortgages (manager s) pid)) \<le> unat t"
    and "unat (lastPaymentTimestamp (mortgages (manager s) pid)) + 7776000 < unat t \<Longrightarrow>
           handleDefault t pid s = Inr s'"
    and "unat t \<le> unat (lastPaymentTimestamp (mortgages (manager s) pid)) + 7776000 \<Longrightarrow>
           s' = s"
  using assms
  by (auto simp: checkDefault_def Let_def ebind_Inr require_Inr checked_sub_Inr
      word_less_nat_alt unat_checked unat_DEFAULT_PERIOD split: if_splits)

text \<open>What a default check that returns on an overdue loan has done.\<close>

lemma checkDefault_effect:
  assumes "checkDefault t pid s = Inr s'"
    and "unat (lastPaymentTimestamp (mortgages (manager s) pid)) + 7776000 < unat t"
  shows "status (mortgages (manager s) pid) = Active
    \<and> status (mortgages (manager s') pid) = Foreclosed
    \<and> managerEvents (manager s') = managerEvents (manager s)
         @ [MortgageDefaulted pid (borrower (mortgages (manager s) pid)),
            PropertyForeclosed pid (borrower (mortgages (manager s) pid))]
    \<and> (\<exists>remaining. remainingBalance (mortgages (manager s) pid) = Inr remaining
         \<and> unat remaining = unat (loanAmount (mortgages (manager s) pid))
              - (unat (totalPaid (mortgages (manager s) pid))
                  - unat (downPayment (mortgages (manager s) pid)))
         \<and> (0 < unat remaining
              \<and> unat remaining div 2 \<le> unat (insuranceReserve (mortgagePool s)) \<longrightarrow>
              coverDefault (this s) (remaining div 2) (mortgagePool s)
                = Inr (mortgagePool s')
              \<and> poolEvents (mortgagePool s') = poolEvents (mortgagePool s)
                   @ [InsurancePayout (this s) (remaining div 2)]
              \<and> unat (insuranceReserve (mortgagePool s'))
                   = unat (insuranceReserve (mortgagePool s)) - unat remaining div 2
              \<and> unat (activeMortgages (mortgagePool s'))
                   = unat (activeMortgages (mortgagePool s)) - unat remaining div 2)
         \<and> (unat remaining = 0
              \<or> unat (insuranceReserve (mortgagePool s)) < unat remaining div 2 \<longrightarrow>
              mortgagePool s' = mortgagePool s))"
proof -
  note c = checkDefault_Inr [OF assms(1)]
  from c(3) [OF assms(2)] obtain remaining where
      r: "remainingBalance (mortgages (manager s) pid) = Inr remaining"
    and st: "status (mortgages (manager s') pid) = Foreclosed"
    and ev: "managerEvents (manager s') = managerEvents (manager s)
           @ [MortgageDefaulted pid (borrower (mortgages (manager s) pid)),
              PropertyForeclosed pid (borrower (mortgages (manager s) pid))]"
    and cov: "0 < remaining \<and> remaining div 2 \<le> insuranceReserve (mortgagePool s) \<longrightarrow>
           coverDefault (this s) (remaining div 2) (mortgagePool s) = Inr (mortgagePool s')"
    and skip: "\<not> (0 < remaining \<and> remaining div 2 \<le> insuranceReserve (mortgagePool s)) \<longrightarrow>
           mortgagePool s' = mortgagePool s"
    by (rule handleDefault_Inr)
  have half: "unat (remaining div 2) = unat remaining div 2"
    by (simp add: unat_div)
  have iff: "0 < remaining \<and> remaining div 2 \<le> insuranceReserve (mortgagePool s) \<longleftrightarrow>
      0 < unat remaining \<and> unat remaining div 2 \<le> unat (insuranceReserve (mortgagePool s))"
    by (simp add: word_le_nat_alt word_less_nat_alt half)
  have a: "coverDefault (this s) (remaining div 2) (mortgagePool s)
                = Inr (mortgagePool s')
              \<and> poolEvents (mortgagePool s') = poolEvents (mortgagePool s)
                   @ [InsurancePayout (this s) (remaining div 2)]
              \<and> unat (insuranceReserve (mortgagePool s'))
                   = unat (insuranceReserve (mortgagePool s)) - unat remaining div 2
              \<and> unat (activeMortgages (mortgagePool s'))
                   = unat (activeMortgages (mortgagePool s)) - unat remaining div 2"
    if "0 < unat remaining
          \<and> unat remaining div 2 \<le> unat (insuranceReserve (mortgagePool s))"
  proof -
    from that have "coverDefault (this s) (remaining div 2) (mortgagePool s)
                      = Inr (mortgagePool s')"
      using cov by (simp add: iff)
    from this coverDefault_Inr [OF this] show ?thesis
      by (simp add: half)
  qed
  have b: "mortgagePool s' = mortgagePool s"
    if "unat remaining = 0
          \<or> unat (insuranceReserve (mortgagePool s)) < unat remaining div 2"
    using that skip by (auto simp: iff)
  show ?thesis
    using c(1) st ev r unat_remainingBalance [OF r] a b by blast
qed

lemma loan_example_fields':
  "totalLiquidity (mortgagePool (loan_example 5000)) = 5000"
  "activeMortgages (mortgagePool (loan_example 5000)) = 80"
  "insuranceReserve (mortgagePool (loan_example 5000)) = 100"
  "authorizedBorrowers (mortgagePool (loan_example 5000)) 9"
  "owners (propertyNFT (loan_example 5000)) 0 = 2"
  "operatorApprovals (propertyNFT (loan_example 5000)) 2 9"
  "nftOwner (propertyNFT (loan_example 5000)) = 9"
  "this (loan_example 5000) = 9"
  "totalActiveMortgages (manager (loan_example 5000)) = 1"
  by (simp_all add: loan_example_def manager_defs registry_defs pool_defs checked_defs)

lemma foreclose_returns:
  assumes "this s \<noteq> 0"
    and "nftOwner (propertyNFT s) = this s"
    and "owners (propertyNFT s) pid = borrower (mortgages (manager s) pid)"
    and "isAuthorized (borrower (mortgages (manager s) pid)) (this s) pid (propertyNFT s)"
  shows "\<exists>s'. foreclose t pid s = Inr s'"
  using assms
  by (simp add: foreclose_def Let_def transferFrom_def listProperty_def onlyOwner_def
      require_def)

lemma coverDefault_returns:
  assumes "authorizedBorrowers p sender"
    and "a \<le> insuranceReserve p" and "a \<le> activeMortgages p"
  shows "\<exists>p'. coverDefault sender a p = Inr p'"
  using assms by (simp add: coverDefault_def require_def checked_sub_def)

lemma remainingBalance_returns:
  assumes "unat (downPayment m) \<le> unat (totalPaid m)"
    and "unat (totalPaid m) - unat (downPayment m) \<le> unat (loanAmount m)"
  shows "remainingBalance m = Inr (loanAmount m - (totalPaid m - downPayment m))"
  using assms
  by (simp add: remainingBalance_def checked_sub_def word_le_nat_alt unat_checked)

lemma handleDefault_returns:
  assumes "0 < unat (totalActiveMortgages (manager s))"
    and "unat (downPayment (mortgages (manager s) pid))
           \<le> unat (totalPaid (mortgages (manager s) pid))"
    and "unat (totalPaid (mortgages (manager s) pid))
           - unat (downPayment (mortgages (manager s) pid))
           \<le> unat (loanAmount (mortgages (manager s) pid))"
    and "custody_delegated pid s"
    and "\<And>remaining. remainingBalance (mortgages (manager s) pid) = Inr remaining \<Longrightarrow>
           0 < remaining \<Longrightarrow> remaining div 2 \<le> insuranceReserve (mortgagePool s) \<Longrightarrow>
           authorizedBorrowers (mortgagePool s) (this s)
           \<and> remaining div 2 \<le> activeMortgages (mortgagePool s)"
  shows "\<exists>s'. handleDefault t pid s = Inr s'"
proof -
  define m where "m = mortgages (manager s) pid"
  define remaining where "remaining = loanAmount m - (totalPaid m - downPayment m)"
  have r: "remainingBalance m = Inr remaining"
    using assms(2,3) unfolding m_def remaining_def by (rule remainingBalance_returns)
  have c: "checked_sub (totalActiveMortgages (manager s)) 1
             = Inr (totalActiveMortgages (manager s) - 1)"
    using assms(1) by (simp add: checked_sub_def word_le_nat_alt)
  obtain pool' where p: "(if remaining > 0 then
               ebind (checked_div remaining 2) (\<lambda>insuranceCoverage.
               if insuranceCoverage \<le> insuranceReserve (mortgagePool s)
               then coverDefault (this s) insuranceCoverage (mortgagePool s)
               else Inr (mortgagePool s))
             else Inr (mortgagePool s)) = Inr pool'"
  proof (cases "0 < remaining \<and> remaining div 2 \<le> insuranceReserve (mortgagePool s)")
    case True
    with assms(5) [OF r [unfolded m_def]]
    have "authorizedBorrowers (mortgagePool s) (this s)
           \<and> remaining div 2 \<le> activeMortgages (mortgagePool s)" by simp
    with True obtain p' where
      "coverDefault (this s) (remaining div 2) (mortgagePool s) = Inr p'"
      using coverDefault_returns [of "mortgagePool s" "this s" "remaining div 2"] by blast
    with True show ?thesis
      by (intro that [of p']) (simp add: checked_div_def)
  next
    case False
    then show ?thesis
      by (intro that [of "mortgagePool s"]) (auto simp: checked_div_def)
  qed
  define S where "S = s\<lparr>mortgagePool := pool',
           manager := (manager s)
             \<lparr>mortgages := (mortgages (manager s))(pid := m\<lparr>status := Defaulted\<rparr>),
              totalActiveMortgages := totalActiveMortgages (manager s) - 1,
              managerEvents := managerEvents (manager s)
                @ [MortgageDefaulted pid (borrower m)]\<rparr>\<rparr>"
  have "\<exists>s'. foreclose t pid S = Inr s'"
    using assms(4)
    by (intro foreclose_returns) (simp_all add: S_def custody_delegated_def m_def)
  then show ?thesis
    using r c p
    by (simp add: handleDefault_def Let_def m_def [symmetric] S_def [symmetric])
qed

lemma checkDefault_overdue:
  assumes "status (mortgages (manager s) pid) = Active"
    and "unat (lastPaymentTimestamp (mortgages (manager s) pid)) + 7776000 < unat t"
  shows "checkDefault t pid s = handleDefault t pid s"
proof -
  have le: "unat (lastPaymentTimestamp (mortgages (manager s) pid)) \<le> unat t"
    using assms(2) by simp
  then have "unat (t - lastPaymentTimestamp (mortgages (manager s) pid))
               = unat t - unat (lastPaymentTimestamp (mortgages (manager s) pid))"
    by (rule unat_sub_checked)
  then have "DEFAULT_PERIOD < t - lastPaymentTimestamp (mortgages (manager s) pid)"
    using assms(2) by (simp add: word_less_nat_alt unat_DEFAULT_PERIOD)
  then show ?thesis
    using assms(1) le
    by (simp add: checkDefault_def Let_def require_def checked_sub_def word_le_nat_alt)
qed

text \<open>
  C1 (as amended). Take an \<open>Active\<close> loan whose last payment is more than the 90-day
  default period ago and whose custody is delegated to the manager: the borrower holds
  the asset and has approved the manager, which owns the registry. Then \<open>checkDefault\<close>
  returns, provided the counters it decrements do not underflow and, when a payout is
  due, the manager is an authorized caller of the pool. The loan is then \<open>Foreclosed\<close>,
  having passed through \<open>Defaulted\<close> (both events are emitted). With
  \<open>remaining = loanAmount - (totalPaid - downPayment)\<close>: if \<open>remaining > 0\<close> and
  \<open>remaining / 2\<close> is at most the insurance reserve, the pool's \<open>coverDefault\<close> is called
  for exactly \<open>remaining / 2\<close>, which leaves the reserve and \<open>activeMortgages\<close> lower by
  that amount; if the reserve is smaller than \<open>remaining / 2\<close> (or nothing remains), no
  payout is requested and the pool is unchanged. The reserve never underflows.
\<close>

theorem checkDefault_cover:
  assumes "status (mortgages (manager s) pid) = Active"
    and "unat (lastPaymentTimestamp (mortgages (manager s) pid)) + 7776000 < unat t"
    and "custody_delegated pid s"
    and "0 < unat (totalActiveMortgages (manager s))"
    and "unat (downPayment (mortgages (manager s) pid))
           \<le> unat (totalPaid (mortgages (manager s) pid))"
    and "unat (totalPaid (mortgages (manager s) pid))
           - unat (downPayment (mortgages (manager s) pid))
           \<le> unat (loanAmount (mortgages (manager s) pid))"
    and "0 < unat (loanAmount (mortgages (manager s) pid))
               - (unat (totalPaid (mortgages (manager s) pid))
                   - unat (downPayment (mortgages (manager s) pid)))
         \<and> (unat (loanAmount (mortgages (manager s) pid))
               - (unat (totalPaid (mortgages (manager s) pid))
                   - unat (downPayment (mortgages (manager s) pid)))) div 2
             \<le> unat (insuranceReserve (mortgagePool s)) \<longrightarrow>
         authorizedBorrowers (mortgagePool s) (this s)
         \<and> (unat (loanAmount (mortgages (manager s) pid))
               - (unat (totalPaid (mortgages (manager s) pid))
                   - unat (downPayment (mortgages (manager s) pid)))) div 2
             \<le> unat (activeMortgages (mortgagePool s))"
  shows "\<exists>s' remaining. checkDefault t pid s = Inr s'
    \<and> status (mortgages (manager s') pid) = Foreclosed
    \<and> managerEvents (manager s') = managerEvents (manager s)
         @ [MortgageDefaulted pid (borrower (mortgages (manager s) pid)),
            PropertyForeclosed pid (borrower (mortgages (manager s) pid))]
    \<and> remainingBalance (mortgages (manager s) pid) = Inr remaining
    \<and> unat remaining = unat (loanAmount (mortgages (manager s) pid))
          - (unat (totalPaid (mortgages (manager s) pid))
              - unat (downPayment (mortgages (manager s) pid)))
    \<and> (0 < unat remaining
          \<and> unat remaining div 2 \<le> unat (insuranceReserve (mortgagePool s)) \<longrightarrow>
          coverDefault (this s) (remaining div 2) (mortgagePool s)
            = Inr (mortgagePool s')
          \<and> poolEvents (mortgagePool s') = poolEvents (mortgagePool s)
               @ [InsurancePayout (this s) (remaining div 2)]
          \<and> unat (insuranceReserve (mortgagePool s'))
               = unat (insuranceReserve (mortgagePool s)) - unat remaining div 2
          \<and> unat (activeMortgages (mortgagePool s'))
               = unat (activeMortgages (mortgagePool s)) - unat remaining div 2)
    \<and> (unat remaining = 0
          \<or> unat (insuranceReserve (mortgagePool s)) < unat remaining div 2 \<longrightarrow>
          mortgagePool s' = mortgagePool s)"
proof -
  have pool: "authorizedBorrowers (mortgagePool s) (this s)
           \<and> remaining div 2 \<le> activeMortgages (mortgagePool s)"
    if r: "remainingBalance (mortgages (manager s) pid) = Inr remaining"
      and "0 < remaining" "remaining div 2 \<le> insuranceReserve (mortgagePool s)"
    for remaining
    using assms(7) that(2,3)
    by (simp add: unat_remainingBalance [OF r, symmetric] word_le_nat_alt word_less_nat_alt
        unat_div)
  from handleDefault_returns [OF assms(4,5,6,3) pool, of t]
  obtain s' where "handleDefault t pid s = Inr s'"
    by blast
  then have s': "checkDefault t pid s = Inr s'"
    by (simp add: checkDefault_overdue [OF assms(1,2)])
  from checkDefault_effect [OF s' assms(2)] s' show ?thesis
    by blast
qed

lemma loan_example_custody:
  "custody_delegated 0 (loan_example 100)" "custody_delegated 0 (loan_example 5000)"
  by (simp_all add: custody_delegated_def isAuthorized_def loan_example_mortgage
      loan_example_mortgage' loan_example_registry loan_example_fields')

theorem checkDefault_cover_witness:
  "custody_delegated 0 (loan_example 5000) \<and> custody_delegated 0 (loan_example 100)
   \<and> (\<exists>s'. checkDefault 7776001 0 (loan_example 5000) = Inr s'
      \<and> status (mortgages (manager s') 0) = Foreclosed
      \<and> poolEvents (mortgagePool s')
          = poolEvents (mortgagePool (loan_example 5000)) @ [InsurancePayout 9 40]
      \<and> unat (insuranceReserve (mortgagePool s')) = 100 - 80 div 2
      \<and> unat (activeMortgages (mortgagePool s')) = 80 - 80 div 2)
   \<and> (\<exists>s'. checkDefault 7776001 0 (loan_example 100) = Inr s'
      \<and> status (mortgages (manager s') 0) = Foreclosed
      \<and> mortgagePool s' = mortgagePool (loan_example 100))"
proof -
  have a: "\<exists>s'. checkDefault 7776001 0 (loan_example 5000) = Inr s'
      \<and> status (mortgages (manager s') 0) = Foreclosed
      \<and> poolEvents (mortgagePool s')
          = poolEvents (mortgagePool (loan_example 5000)) @ [InsurancePayout 9 40]
      \<and> unat (insuranceReserve (mortgagePool s')) = 100 - 80 div 2
      \<and> unat (activeMortgages (mortgagePool s')) = 80 - 80 div 2"
    using checkDefault_cover [of "loan_example 5000" 0 7776001] loan_example_custody(2)
    by (auto simp: remainingBalance_def checked_defs loan_example_mortgage'
        loan_example_fields')
  have b: "\<exists>s'. checkDefault 7776001 0 (loan_example 100) = Inr s'
      \<and> status (mortgages (manager s') 0) = Foreclosed
      \<and> mortgagePool s' = mortgagePool (loan_example 100)"
    using checkDefault_cover [of "loan_example 100" 0 7776001] loan_example_custody(1)
    by (auto simp: remainingBalance_def checked_defs loan_example_mortgage
        loan_example_pool loan_example_manager)
  from a b loan_example_custody show ?thesis by blast
qed

text \<open>
  Activation hands the asset to the borrower and \<open>_foreclose\<close> transfers it back from
  the borrower, which the registry allows only with the borrower's approval. On the loan
  as the application leaves it no approval exists, and the default check reverts.
\<close>

lemma unapproved_example_fields:
  "status (mortgages (manager unapproved_example) 0) = Active"
  "lastPaymentTimestamp (mortgages (manager unapproved_example) 0) = 0"
  "borrower (mortgages (manager unapproved_example) 0) = 2"
  "owners (propertyNFT unapproved_example) 0 = 2"
  "\<not> custody_delegated 0 unapproved_example"
  by (simp_all add: unapproved_example_def custody_delegated_def manager_defs registry_defs
      pool_defs checked_defs)

lemma unapproved_example_default:
  "checkDefault 7776001 0 unapproved_example = Inl ERC721InsufficientApproval"
  by (simp add: unapproved_example_def default_defs manager_defs registry_defs pool_defs
      checked_defs)

text \<open>
  The payout is skipped, not capped: the example loan has 80 outstanding and the reserve
  holds 2, less than 40; after the default the reserve still holds 2 and the pool has
  emitted no \<open>InsurancePayout\<close>. Nor is every overdue \<open>Active\<close> loan defaulted:
  without the borrower's approval \<open>checkDefault\<close> reverts and the loan stays \<open>Active\<close>.
\<close>

theorem default_cover_counterexample:
  "status (mortgages (manager (loan_example 100)) 0) = Active
   \<and> lastPaymentTimestamp (mortgages (manager (loan_example 100)) 0) = 0
   \<and> remainingBalance (mortgages (manager (loan_example 100)) 0) = Inr 80
   \<and> insuranceReserve (mortgagePool (loan_example 100)) = 2
   \<and> status (mortgages (manager foreclosed_example) 0) = Foreclosed
   \<and> insuranceReserve (mortgagePool foreclosed_example) = 2
   \<and> poolEvents (mortgagePool foreclosed_example)
       = poolEvents (mortgagePool (loan_example 100))
   \<and> status (mortgages (manager unapproved_example) 0) = Active
   \<and> lastPaymentTimestamp (mortgages (manager unapproved_example) 0) = 0
   \<and> checkDefault 7776001 0 unapproved_example = Inl ERC721InsufficientApproval
   \<and> status (mortgages (manager
         (commit unapproved_example (checkDefault 7776001 0 unapproved_example))) 0) = Active"
proof -
  have "status (mortgages (manager (loan_example 100)) 0) = Active
   \<and> lastPaymentTimestamp (mortgages (manager (loan_example 100)) 0) = 0
   \<and> remainingBalance (mortgages (manager (loan_example 100)) 0) = Inr 80
   \<and> insuranceReserve (mortgagePool (loan_example 100)) = 2
   \<and> status (mortgages (manager foreclosed_example) 0) = Foreclosed
   \<and> insuranceReserve (mortgagePool foreclosed_example) = 2
   \<and> poolEvents (mortgagePool foreclosed_example)
       = poolEvents (mortgagePool (loan_example 100))"
    by (simp add: foreclosed_example_def default_defs loan_example_mortgage
      loan_example_pool loan_example_registry loan_example_manager registry_defs pool_defs
      checked_defs Let_def)
  then show ?thesis
    by (simp add: unapproved_example_default unapproved_example_fields commit_def)
qed

end
